theory Spec2Isabelle
  imports Complex_Main
begin

section \<open>Numeric helpers shared by the models\<close>

text \<open>
  Python floats are modelled as \<^typ>\<open>real\<close>: rounding error, infinities and NaN are
  outside the model. Where the source tests for NaN or \<open>None\<close>, the value is a
  \<^typ>\<open>real option\<close> and \<open>None\<close> stands for the missing reading.
\<close>

text \<open>\<open>np.clip(x, lo, hi)\<close> is \<open>minimum(maximum(x, lo), hi)\<close>.\<close>

definition clip :: "real \<Rightarrow> real \<Rightarrow> real \<Rightarrow> real" where
  "clip x lo hi = min (max x lo) hi"

text \<open>\<open>int(x)\<close> truncates towards zero.\<close>

definition py_int :: "real \<Rightarrow> int" where
  "py_int x = (if 0 \<le> x then \<lfloor>x\<rfloor> else \<lceil>x\<rceil>)"

text \<open>\<open>round(x, nd)\<close> rounds to \<open>nd\<close> decimals, a tie going to the even neighbour.\<close>

definition round_half_even :: "real \<Rightarrow> int" where
  "round_half_even y =
     (let f = \<lfloor>y\<rfloor>; d = y - of_int f
      in if d < 1/2 then f
         else if 1/2 < d then f + 1
         else if even f then f else f + 1)"

definition py_round :: "nat \<Rightarrow> real \<Rightarrow> real" where
  "py_round nd x = of_int (round_half_even (x * 10 ^ nd)) / 10 ^ nd"

section \<open>Risk aggregation (models/bloom\_probability\_model.py)\<close>

datatype risk_level = SAFE | LOW | WARNING | CRITICAL

datatype risk_emoji = CheckMark | WarningSign | OrangeCircle | RedCircle

datatype who_severity = low_risk | moderate_risk | high_risk | very_high_risk

text \<open>\<open>_classify_risk\<close>: level, colour and emoji of a score.\<close>

definition classify_risk :: "real \<Rightarrow> risk_level \<times> string \<times> risk_emoji" where
  "classify_risk score =
     (if score < 25 then (SAFE, ''#2ecc71'', CheckMark)
      else if score < 50 then (LOW, ''#f1c40f'', WarningSign)
      else if score < 75 then (WARNING, ''#e67e22'', OrangeCircle)
      else (CRITICAL, ''#e74c3c'', RedCircle))"

text \<open>\<open>_estimate_cells\<close>: \<open>int(np.clip(100 * np.exp(risk_score * 0.115), 100, 20_000_000))\<close>.\<close>

definition estimate_cells :: "real \<Rightarrow> int" where
  "estimate_cells risk_score =
     (let cells = 100 * exp (risk_score * (115 / 1000))
      in py_int (clip cells 100 20000000))"

text \<open>\<open>_who_severity\<close>.\<close>

definition who_severity_of :: "int \<Rightarrow> who_severity" where
  "who_severity_of cells =
     (if cells < 20000 then low_risk
      else if cells < 100000 then moderate_risk
      else if cells < 10000000 then high_risk
      else very_high_risk)"

record component_scores =
  cs_temperature :: real
  cs_nutrients :: real
  cs_stagnation :: real
  cs_light :: real
  cs_growth :: real

record bloom_result =
  risk_score :: real
  risk_level :: risk_level
  risk_color :: string
  risk_emoji :: risk_emoji
  who_severity :: who_severity
  estimated_cells_per_ml :: int
  components :: component_scores
  interaction_boost :: real

text \<open>
  \<open>compute_bloom_probability\<close>, the weighted-sum aggregator. \<open>mu\<close> is
  \<open>growth_rate.get("mu_per_day", 0)\<close> (\<open>None\<close> when the key is absent) and \<open>cyfi\<close> is
  the satellite cell count (\<open>None\<close> when there is no dict or no count). The advisory
  text and the confidence label, which are passed through, are left out; the
  \<open>interaction_boost\<close> field, which this aggregator does not return, is 0.
\<close>

definition cyfi_adjustment :: "real option \<Rightarrow> real" where
  "cyfi_adjustment cyfi =
     (case cyfi of
        None \<Rightarrow> 0
      | Some cells \<Rightarrow>
          if 100000 < cells then 15
          else if 20000 < cells then 8
          else if 5000 < cells then 3
          else 0)"

definition compute_bloom_probability ::
  "real \<Rightarrow> real \<Rightarrow> real \<Rightarrow> real \<Rightarrow> real option \<Rightarrow> real option \<Rightarrow> bloom_result" where
  "compute_bloom_probability t_score n_score s_score l_score mu_opt cyfi =
     (let mu = (case mu_opt of None \<Rightarrow> 0 | Some m \<Rightarrow> m);
          growth_score = clip (mu / (12 / 10) * 100) 0 100;
          base_score = (30 / 100) * t_score + (25 / 100) * n_score + (20 / 100) * s_score
                       + (10 / 100) * l_score + (15 / 100) * growth_score;
          cyfi_adj = cyfi_adjustment cyfi;
          score = py_round 1 (clip (base_score + cyfi_adj) 0 100);
          cls = classify_risk score;
          cells = estimate_cells score
      in \<lparr> risk_score = score,
           risk_level = fst cls,
           risk_color = fst (snd cls),
           risk_emoji = snd (snd cls),
           who_severity = who_severity_of cells,
           estimated_cells_per_ml = cells,
           components = \<lparr> cs_temperature = py_round 1 t_score,
                          cs_nutrients = py_round 1 n_score,
                          cs_stagnation = py_round 1 s_score,
                          cs_light = py_round 1 l_score,
                          cs_growth = py_round 1 growth_score \<rparr>,
           interaction_boost = 0 \<rparr>)"

text \<open>
  \<open>calculate_bloom_risk\<close>, the weighted-geometric-mean aggregator, with its
  intermediate values named as in the source.
\<close>

definition geo_mean :: "real \<Rightarrow> real \<Rightarrow> real \<Rightarrow> real \<Rightarrow> real \<Rightarrow> real" where
  "geo_mean temperature_score nutrient_score stagnation_score light_score growth_rate_mu =
     (let growth_score = clip (growth_rate_mu / (12 / 10) * 100) 0 100;
          log_sum = (30 / 100) * ln (clip temperature_score (1 / 1000) 100)
                  + (25 / 100) * ln (clip nutrient_score (1 / 1000) 100)
                  + (20 / 100) * ln (clip stagnation_score (1 / 1000) 100)
                  + (10 / 100) * ln (clip light_score (1 / 1000) 100)
                  + (15 / 100) * ln (clip growth_score (1 / 1000) 100)
      in exp log_sum)"

definition interaction_boost_of :: "real \<Rightarrow> real \<Rightarrow> real" where
  "interaction_boost_of temperature_score nutrient_score =
     (if 60 < temperature_score \<and> 60 < nutrient_score
      then (10 / 100) * min temperature_score nutrient_score
      else 0)"

definition raw_bloom_risk :: "real \<Rightarrow> real \<Rightarrow> real \<Rightarrow> real \<Rightarrow> real \<Rightarrow> real" where
  "raw_bloom_risk temperature_score nutrient_score stagnation_score light_score growth_rate_mu =
     geo_mean temperature_score nutrient_score stagnation_score light_score growth_rate_mu
     + interaction_boost_of temperature_score nutrient_score"

definition calculate_bloom_risk ::
  "real \<Rightarrow> real \<Rightarrow> real \<Rightarrow> real \<Rightarrow> real \<Rightarrow> bloom_result" where
  "calculate_bloom_risk temperature_score nutrient_score stagnation_score light_score growth_rate_mu =
     (let growth_score = clip (growth_rate_mu / (12 / 10) * 100) 0 100;
          score = py_round 1 (clip (raw_bloom_risk temperature_score nutrient_score
                                      stagnation_score light_score growth_rate_mu) 0 100);
          cls = classify_risk score;
          cells = estimate_cells score
      in \<lparr> risk_score = score,
           risk_level = fst cls,
           risk_color = fst (snd cls),
           risk_emoji = snd (snd cls),
           who_severity = who_severity_of cells,
           estimated_cells_per_ml = cells,
           components = \<lparr> cs_temperature = py_round 1 (clip temperature_score (1 / 1000) 100),
                          cs_nutrients = py_round 1 (clip nutrient_score (1 / 1000) 100),
                          cs_stagnation = py_round 1 (clip stagnation_score (1 / 1000) 100),
                          cs_light = py_round 1 (clip light_score (1 / 1000) 100),
                          cs_growth = py_round 1 (clip growth_score (1 / 1000) 100) \<rparr>,
           interaction_boost = py_round 2 (interaction_boost_of temperature_score nutrient_score) \<rparr>)"

section \<open>Growth rate (models/growth\_rate\_model.py)\<close>

text \<open>\<open>_arrhenius_correction\<close>: the cardinal-temperature factor, with its three guards.\<close>

definition arrhenius_correction :: "real \<Rightarrow> real" where
  "arrhenius_correction water_temp =
     (let t_opt = 28; t_min = 5; t_max = 40
      in if water_temp \<le> t_min \<or> water_temp \<ge> t_max then 1 / 100
         else
           let num = (water_temp - t_max) * (water_temp - t_min) ^ 2;
               den = (t_opt - t_min) *
                     ((t_opt - t_min) * (water_temp - t_opt)
                      - (t_opt - t_max) * (t_opt + t_min - 2 * water_temp))
           in if den = 0 then 1 / 100
              else clip (num / den) (1 / 100) 1)"

datatype factor_name = Temperature | Nutrients | Light | Stagnation

record growth_result =
  mu_per_day :: real
  doubling_time_hours :: "real option"
  limiting_factor :: factor_name
  factor_values :: "real \<times> real \<times> real \<times> real"
  biomass_trajectory :: "real list"
  temp_correction :: real

text \<open>The body of \<open>for _ in range(7)\<close>: the biomass grows unrounded, each entry is rounded.\<close>

fun trajectory_loop :: "nat \<Rightarrow> real \<Rightarrow> real \<Rightarrow> real list" where
  "trajectory_loop 0 biomass mu = []"
| "trajectory_loop (Suc k) biomass mu =
     (let biomass' = biomass * exp mu
      in py_round 3 biomass' # trajectory_loop k biomass' mu)"

text \<open>\<open>min(factors, key=factors.get)\<close> returns the first key of least value.\<close>

definition limiting_of :: "real \<Rightarrow> real \<Rightarrow> real \<Rightarrow> real \<Rightarrow> factor_name" where
  "limiting_of f_t f_n f_l f_s =
     (if f_t \<le> f_n \<and> f_t \<le> f_l \<and> f_t \<le> f_s then Temperature
      else if f_n \<le> f_l \<and> f_n \<le> f_s then Nutrients
      else if f_l \<le> f_s then Light
      else Stagnation)"

definition compute_growth_rate ::
  "real \<Rightarrow> real \<Rightarrow> real \<Rightarrow> real \<Rightarrow> real \<Rightarrow> growth_result" where
  "compute_growth_rate t_score n_score l_score s_score water_temp =
     (let f_t = clip (t_score / 100) (1 / 100) 1;
          f_n = clip (n_score / 100) (1 / 100) 1;
          f_l = clip (l_score / 100) (1 / 100) 1;
          f_s = clip (s_score / 100) (1 / 100) 1;
          tc = arrhenius_correction water_temp;
          mu = clip ((12 / 10) * f_t * f_n * f_l * f_s * tc) 0 (12 / 10);
          doubling_h = (if 1 / 1000 < mu then Some ((ln 2 / mu) * 24) else None)
      in \<lparr> mu_per_day = py_round 4 mu,
           doubling_time_hours =
             (case doubling_h of
                None \<Rightarrow> None
              | Some d \<Rightarrow> if d = 0 then None else Some (py_round 1 d)),
           limiting_factor = limiting_of f_t f_n f_l f_s,
           factor_values = (py_round 3 f_t, py_round 3 f_n, py_round 3 f_l, py_round 3 f_s),
           biomass_trajectory = 1 # trajectory_loop 7 1 mu,
           temp_correction = py_round 3 tc \<rparr>)"

section \<open>Light score (light\_features.py)\<close>

definition normalize_uv :: "real \<Rightarrow> real" where
  "normalize_uv uv_index = clip (uv_index / 11) 0 1"

definition radians :: "real \<Rightarrow> real" where
  "radians d = d * pi / 180"

text \<open>
  \<open>np.arccos\<close> outside \<open>[-1, 1]\<close> gives NaN (with a warning): that outcome is \<open>None\<close>.
  \<open>np.tan\<close> is finite on every float; HOL's \<^const>\<open>tan\<close> is total as well. At a
  latitude of exactly 90 or -90 degrees the two differ: \<open>tan (pi / 2)\<close> is 0 in HOL and
  about \<open>1.6e16\<close> in floats, so the model's photoperiod there is 12 hours where the
  code's is 24 or 0.
\<close>

definition np_arccos :: "real \<Rightarrow> real option" where
  "np_arccos c = (if - 1 \<le> c \<and> c \<le> 1 then Some (arccos c) else None)"

definition photoperiod :: "real \<Rightarrow> int \<Rightarrow> real option" where
  "photoperiod latitude day_of_year =
     (let lat_rad = radians latitude;
          decl = (2344 / 100) * cos (radians (of_int ((172 - day_of_year) * 360) / 365));
          decl_rad = radians decl;
          cos_ha = clip (- tan lat_rad * tan decl_rad) (- 1) 1
      in case np_arccos cos_ha of
           None \<Rightarrow> None
         | Some ha \<Rightarrow> Some (24 * ha / pi))"

definition cloud_suppression :: "real \<Rightarrow> real" where
  "cloud_suppression cloud_cover =
     (let cc_frac = (if cloud_cover \<le> 1 then cloud_cover else cloud_cover / 100)
      in clip (1 - cc_frac) 0 1)"

definition compute_light_score :: "real \<Rightarrow> real \<Rightarrow> real \<Rightarrow> int \<Rightarrow> real option" where
  "compute_light_score uv_index cloud_cover latitude day_of_year =
     (let uv_norm = normalize_uv uv_index
      in case photoperiod latitude day_of_year of
           None \<Rightarrow> None
         | Some daylen \<Rightarrow>
             let daylen_norm = clip (daylen / 24) 0 1;
                 cloud_factor = cloud_suppression cloud_cover;
                 combined = uv_norm * daylen_norm * cloud_factor
             in Some (combined * 100))"

section \<open>Seven-day trend slope (temperature\_features.py)\<close>

text \<open>\<open>lst[-k:]\<close> for \<open>k > 0\<close>: the last \<open>k\<close> entries, or all of a shorter list.\<close>

definition last_n :: "nat \<Rightarrow> 'a list \<Rightarrow> 'a list" where
  "last_n k xs = drop (length xs - k) xs"

text \<open>\<open>recent[~np.isnan(recent)]\<close>: the readings that are numbers, in order.\<close>

fun drop_nan :: "real option list \<Rightarrow> real list" where
  "drop_nan [] = []"
| "drop_nan (None # xs) = drop_nan xs"
| "drop_nan (Some x # xs) = x # drop_nan xs"

definition mean :: "real list \<Rightarrow> real" where
  "mean xs = sum_list xs / real (length xs)"

text \<open>The centred sums of \<open>trend_slope_7day\<close> over \<open>x = np.arange(len(recent))\<close>.\<close>

definition ss_xy :: "real list \<Rightarrow> real" where
  "ss_xy ys =
     (let n = length ys;
          x_mean = mean (map real [0..<n]);
          y_mean = mean ys
      in sum_list (map (\<lambda>i. (real i - x_mean) * (ys ! i - y_mean)) [0..<n]))"

definition ss_xx :: "real list \<Rightarrow> real" where
  "ss_xx ys =
     (let n = length ys;
          x_mean = mean (map real [0..<n])
      in sum_list (map (\<lambda>i. (real i - x_mean) ^ 2) [0..<n]))"

definition trend_slope_7day :: "real option list \<Rightarrow> real" where
  "trend_slope_7day temps =
     (let recent = drop_nan (last_n 7 temps)
      in if length recent < 3 then 0
         else if ss_xx recent = 0 then 0
         else ss_xy recent / ss_xx recent)"

text \<open>
  The textbook least-squares slope of \<open>ys\<close> against the indices \<open>0, 1, \<dots>\<close>, from the
  normal equations.
\<close>

definition ols_slope :: "real list \<Rightarrow> real" where
  "ols_slope ys =
     (let n = length ys;
          sx = (\<Sum>i<n. real i);
          sy = (\<Sum>i<n. ys ! i);
          sxy = (\<Sum>i<n. real i * ys ! i);
          sxx = (\<Sum>i<n. (real i) ^ 2)
      in (real n * sxy - sx * sy) / (real n * sxx - sx ^ 2))"

text \<open>
  The specification's sentence read word for word: the least-squares slope over the last
  seven (or fewer) of the series' non-NaN values, 0 when the series has fewer than three
  valid points. Here the NaN values are dropped first and the window is taken after.
\<close>

definition spec_trend_slope :: "real option list \<Rightarrow> real" where
  "spec_trend_slope temps =
     (let recent = last_n 7 (drop_nan temps)
      in if length recent < 3 then 0 else ols_slope recent)"

section \<open>Trend tests (analysis/trend\_analysis.py)\<close>

text \<open>\<open>combinations(range(n), 2)\<close>: the index pairs \<open>(i, j)\<close> with \<open>i < j < n\<close>, in order.\<close>

definition combinations2 :: "nat \<Rightarrow> (nat \<times> nat) list" where
  "combinations2 n = concat (map (\<lambda>i. map (\<lambda>j. (i, j)) [Suc i..<n]) [0..<n])"

text \<open>
  \<open>np.median\<close> of a list: the middle of the sorted values, the mean of the two middle
  ones for an even count. The source takes it of non-empty lists only; the value for an
  empty list (NaN in numpy) is fixed as 0 here and never reached.
\<close>

definition median :: "real list \<Rightarrow> real" where
  "median xs =
     (let s = sort xs; n = length s
      in if n = 0 then 0
         else if odd n then s ! (n div 2)
         else (s ! (n div 2 - 1) + s ! (n div 2)) / 2)"

record sen_result =
  slope :: real
  intercept :: real
  n_slopes :: nat

text \<open>
  \<open>sens_slope\<close>. The function has no \<open>raise\<close>: each of its three exits returns a dict.
\<close>

definition pairwise_slopes :: "real list \<Rightarrow> real list" where
  "pairwise_slopes x =
     map (\<lambda>(i, j). (x ! j - x ! i) / (real j - real i))
       (filter (\<lambda>(i, j). int j - int i \<noteq> 0) (combinations2 (length x)))"

definition sens_slope :: "real list \<Rightarrow> sen_result" where
  "sens_slope x =
     (let n = length x
      in if n < 2
         then \<lparr> slope = 0, intercept = (if n = 1 then x ! 0 else 0), n_slopes = 0 \<rparr>
         else
           let slopes = pairwise_slopes x
           in if slopes = []
              then \<lparr> slope = 0, intercept = median x, n_slopes = 0 \<rparr>
              else
                let median_slope = median slopes;
                    intercepts = map (\<lambda>i. x ! i - median_slope * real i) [0..<n];
                    median_intercept = median intercepts
                in \<lparr> slope = py_round 6 median_slope,
                     intercept = py_round 4 median_intercept,
                     n_slopes = length slopes \<rparr>)"

datatype mk_trend = increasing | decreasing | no_trend

record mk_result =
  S :: int
  var_S :: real
  z_score :: real
  p_value :: real
  trend :: mk_trend
  significant :: bool

text \<open>The S statistic: the loop over \<open>combinations(range(n), 2)\<close>.\<close>

definition mk_step :: "real list \<Rightarrow> int \<Rightarrow> nat \<times> nat \<Rightarrow> int" where
  "mk_step x s p =
     (let diff = x ! snd p - x ! fst p
      in if 0 < diff then s + 1 else if diff < 0 then s - 1 else s)"

definition mk_S :: "real list \<Rightarrow> int" where
  "mk_S x = foldl (mk_step x) 0 (combinations2 (length x))"

text \<open>
  \<open>np.unique(x, return_counts=True)\<close>: the count of each distinct value, by
  increasing value; then the tie correction summed over the counts above 1.
\<close>

definition unique_counts :: "real list \<Rightarrow> nat list" where
  "unique_counts x = map (\<lambda>v. count_list x v) (remdups (sort x))"

definition tie_correction :: "real list \<Rightarrow> real" where
  "tie_correction x =
     foldl (\<lambda>acc t. if 1 < t then acc + real (t * (t - 1) * (2 * t + 5)) else acc)
       0 (unique_counts x)"

definition mk_var :: "real list \<Rightarrow> real" where
  "mk_var x =
     (let n = length x
      in (real (n * (n - 1) * (2 * n + 5)) - tie_correction x) / 18)"

definition mk_z :: "real list \<Rightarrow> real" where
  "mk_z x =
     (let s = mk_S x; var_s = mk_var x
      in if var_s = 0 then 0
         else if 0 < s then (of_int s - 1) / sqrt var_s
         else if s < 0 then (of_int s + 1) / sqrt var_s
         else 0)"

text \<open>
  The two-tailed p-value. \<open>norm_cdf\<close> stands for \<open>scipy.stats.norm.cdf\<close>, an external
  library function, and is a parameter of the model.
\<close>

definition mk_p :: "(real \<Rightarrow> real) \<Rightarrow> real list \<Rightarrow> real" where
  "mk_p norm_cdf x = 2 * (1 - norm_cdf \<bar>mk_z x\<bar>)"

definition mann_kendall_test :: "(real \<Rightarrow> real) \<Rightarrow> real list \<Rightarrow> mk_result" where
  "mann_kendall_test norm_cdf x =
     (let n = length x
      in if n < 3
         then \<lparr> S = 0, var_S = 0, z_score = 0, p_value = 1, trend = no_trend,
                significant = False \<rparr>
         else
           let s = mk_S x;
               p = mk_p norm_cdf x;
               alpha = 5 / 100
           in \<lparr> S = s,
                var_S = py_round 4 (mk_var x),
                z_score = py_round 4 (mk_z x),
                p_value = py_round 6 p,
                trend = (if p \<le> alpha then (if 0 < s then increasing else decreasing)
                         else no_trend),
                significant = (p \<le> alpha) \<rparr>)"

section \<open>Seven-day forecast (analysis/forecast\_engine.py)\<close>

datatype py_error = IndexError

text \<open>
  The \<open>daily\<close> dict of the weather response. A missing key reads as the empty list
  (\<open>daily.get(k, [])\<close>); a missing or empty \<open>weather\<close> entry is \<open>None\<close>.
  A \<open>null\<close> reading in a list is \<open>None\<close>.
\<close>

record daily =
  time :: "string list"
  temperature_2m_max :: "real option list"
  temperature_2m_min :: "real option list"
  precipitation_sum :: "real option list"
  wind_speed_10m_max :: "real option list"
  uv_index_max :: "real option list"

definition empty_daily :: daily where
  "empty_daily = \<lparr> time = [], temperature_2m_max = [], temperature_2m_min = [],
                   precipitation_sum = [], wind_speed_10m_max = [], uv_index_max = [] \<rparr>"

text \<open>The two slices the source builds: \<open>slice(-n, None)\<close> and \<open>slice(0, n)\<close>.\<close>

datatype py_slice = SliceFromEnd nat | SliceFirst nat

fun apply_slice :: "py_slice \<Rightarrow> 'a list \<Rightarrow> 'a list" where
  "apply_slice (SliceFromEnd n) xs = (if n = 0 then xs else drop (length xs - n) xs)"
| "apply_slice (SliceFirst n) xs = take n xs"

text \<open>\<open>while len(result) < n: result.append(default)\<close>.\<close>

function pad_default :: "real list \<Rightarrow> nat \<Rightarrow> real \<Rightarrow> real list" where
  "pad_default result n dflt =
     (if length result < n then pad_default (result @ [dflt]) n dflt else result)"
  by pat_completeness auto
termination
  by (relation "measure (\<lambda>(result, n, dflt). n - length result)") auto

declare pad_default.simps [simp del]

definition safe_slice :: "real option list \<Rightarrow> py_slice \<Rightarrow> nat \<Rightarrow> real \<Rightarrow> real list" where
  "safe_slice lst slc n dflt =
     (if lst = [] then replicate n dflt
      else
        let result = map (\<lambda>v. case v of None \<Rightarrow> dflt | Some r \<Rightarrow> r) (apply_slice slc lst)
        in pad_default result n dflt)"

text \<open>\<open>v or d\<close> on a number: \<open>d\<close> when \<open>v\<close> is zero.\<close>

definition or_else :: "real \<Rightarrow> real \<Rightarrow> real" where
  "or_else v d = (if v = 0 then d else v)"

text \<open>List indexing, with Python's IndexError out of range.\<close>

definition get_item :: "real list \<Rightarrow> nat \<Rightarrow> py_error + real" where
  "get_item xs i = (if i < length xs then Inr (xs ! i) else Inl IndexError)"

text \<open>One day's projected score, before the momentum term.\<close>

definition project_day :: "real \<Rightarrow> real \<Rightarrow> real \<Rightarrow> real \<Rightarrow> real \<Rightarrow> real" where
  "project_day current_risk tmax tmin psum wmax =
     (let t_avg = (or_else tmax 20 + or_else tmin 10) / 2;
          rain = or_else psum 0;
          wind = or_else wmax 10;
          temp_factor = clip ((t_avg - 15) / 20) 0 1;
          rain_factor = clip (1 - rain / 20) 0 1;
          wind_factor = clip (1 - wind / 30) 0 1
      in current_risk * (5 / 10)
         + (temp_factor * 40 + rain_factor * 15 + wind_factor * 10) * (5 / 10))"

text \<open>
  \<open>for i in range(min(7, len(t_max)))\<close>: \<open>k\<close> counts the iterations left, \<open>i\<close> is the
  index, \<open>risk_scores\<close> the list built so far.
\<close>

fun risk_loop ::
  "real \<Rightarrow> real list \<Rightarrow> real list \<Rightarrow> real list \<Rightarrow> real list \<Rightarrow> nat \<Rightarrow> nat \<Rightarrow> real list
     \<Rightarrow> py_error + real list" where
  "risk_loop current_risk t_max t_min p_sum w_max 0 i risk_scores = Inr risk_scores"
| "risk_loop current_risk t_max t_min p_sum w_max (Suc k) i risk_scores =
     (case get_item t_max i of Inl e \<Rightarrow> Inl e | Inr tmax \<Rightarrow>
     (case get_item t_min i of Inl e \<Rightarrow> Inl e | Inr tmin \<Rightarrow>
     (case get_item p_sum i of Inl e \<Rightarrow> Inl e | Inr psum \<Rightarrow>
     (case get_item w_max i of Inl e \<Rightarrow> Inl e | Inr wmax \<Rightarrow>
        (let projected = project_day current_risk tmax tmin psum wmax;
             projected' = (if 0 < i then projected * (7 / 10) + last risk_scores * (3 / 10)
                           else projected)
         in risk_loop current_risk t_max t_min p_sum w_max k (Suc i)
              (risk_scores @ [py_round 1 (clip projected' 0 100)]))))))"

text \<open>\<open>while len(risk_scores) < 7: risk_scores.append(\<dots>)\<close>.\<close>

function pad_scores :: "real list \<Rightarrow> real \<Rightarrow> real list" where
  "pad_scores risk_scores current_risk =
     (if length risk_scores < 7
      then pad_scores
             (risk_scores @ [if risk_scores \<noteq> [] then last risk_scores else current_risk])
             current_risk
      else risk_scores)"
  by pat_completeness auto
termination
  by (relation "measure (\<lambda>(risk_scores, current_risk). 7 - length risk_scores)") auto

declare pad_scores.simps [simp del]

record forecast =
  fc_dates :: "string list"
  fc_risk_scores :: "real list"
  fc_temp_max :: "real list"
  fc_temp_min :: "real list"
  fc_precip :: "real list"
  fc_wind_max :: "real list"
  fc_uv_max :: "real list"

text \<open>
  \<open>build_7day_forecast\<close>. \<open>fallback_date i\<close> is the formatted date \<open>i\<close> days after
  \<open>datetime.now()\<close>, the clock being outside the model.
\<close>

definition build_7day_forecast ::
  "(nat \<Rightarrow> string) \<Rightarrow> daily option \<Rightarrow> real \<Rightarrow> py_error + forecast" where
  "build_7day_forecast fallback_date weather current_risk =
     (let d = (case weather of None \<Rightarrow> empty_daily | Some w \<Rightarrow> w);
          dates_raw = time d;
          n = min 7 (length dates_raw);
          forecast_slice = (if 7 < length dates_raw then SliceFromEnd n else SliceFirst n);
          dates0 = (if dates_raw \<noteq> [] then apply_slice forecast_slice dates_raw else []);
          t_max = safe_slice (temperature_2m_max d) forecast_slice n 20;
          t_min = safe_slice (temperature_2m_min d) forecast_slice n 10;
          p_sum = safe_slice (precipitation_sum d) forecast_slice n 0;
          w_max = safe_slice (wind_speed_10m_max d) forecast_slice n 10;
          u_max = safe_slice (uv_index_max d) forecast_slice n 3;
          dates = (if length dates0 < 7 then map fallback_date [0..<7] else dates0)
      in case risk_loop current_risk t_max t_min p_sum w_max (min 7 (length t_max)) 0 [] of
           Inl e \<Rightarrow> Inl e
         | Inr scores \<Rightarrow>
             let risk_scores = pad_scores scores current_risk
             in Inr \<lparr> fc_dates = take 7 dates,
                      fc_risk_scores = take 7 risk_scores,
                      fc_temp_max = take 7 t_max,
                      fc_temp_min = take 7 t_min,
                      fc_precip = take 7 p_sum,
                      fc_wind_max = take 7 w_max,
                      fc_uv_max = take 7 u_max \<rparr>)"

text \<open>A weather response with three forecast days, every list of the same length.\<close>

definition three_day_response :: daily where
  "three_day_response =
     \<lparr> time = [''2024-06-01'', ''2024-06-02'', ''2024-06-03''],
       temperature_2m_max = [Some 25, Some 26, Some 27],
       temperature_2m_min = [Some 15, Some 16, Some 17],
       precipitation_sum = [Some 0, Some 2, Some 0],
       wind_speed_10m_max = [Some 10, Some 12, Some 8],
       uv_index_max = [Some 5, Some 6, Some 5] \<rparr>"

section \<open>Properties\<close>

subsection \<open>Clamping and rounding\<close>

lemma clip_lower: "lo \<le> hi \<Longrightarrow> lo \<le> clip x lo hi"
  by (simp add: clip_def)

lemma clip_upper: "clip x lo hi \<le> hi"
  by (simp add: clip_def)

lemma clip_mono: "x \<le> y \<Longrightarrow> clip x lo hi \<le> clip y lo hi"
  by (auto simp: clip_def min_def max_def)

lemma clip_id: "lo \<le> x \<Longrightarrow> x \<le> hi \<Longrightarrow> clip x lo hi = x"
  by (simp add: clip_def)

lemma round_half_even_le: "y \<le> of_int k \<Longrightarrow> round_half_even y \<le> k"
proof -
  assume y: "y \<le> of_int k"
  have fk: "\<lfloor>y\<rfloor> \<le> k" using y by (simp add: floor_le_iff)
  show ?thesis
  proof (cases "\<lfloor>y\<rfloor> = k")
    case True
    then have "y = of_int k" using y of_int_floor_le [of y] by linarith
    then show ?thesis by (simp add: round_half_even_def)
  next
    case False
    then have "\<lfloor>y\<rfloor> + 1 \<le> k" using fk by linarith
    then show ?thesis by (auto simp: round_half_even_def Let_def)
  qed
qed

lemma round_half_even_ge: "of_int k \<le> y \<Longrightarrow> k \<le> round_half_even y"
proof -
  assume "of_int k \<le> y"
  then have "k \<le> \<lfloor>y\<rfloor>" by (simp add: le_floor_iff)
  then show ?thesis by (auto simp: round_half_even_def Let_def)
qed

lemma round_half_even_of_int: "round_half_even (of_int k) = k"
  by (simp add: round_half_even_def)

lemma py_round_1_range:
  assumes "0 \<le> x" "x \<le> 100"
  shows "0 \<le> py_round 1 x" "py_round 1 x \<le> 100"
proof -
  have "of_int 0 \<le> x * 10" using assms by simp
  then have "0 \<le> round_half_even (x * 10)" by (rule round_half_even_ge)
  then show "0 \<le> py_round 1 x" by (simp add: py_round_def)
  have "x * 10 \<le> of_int 1000" using assms by simp
  then have "round_half_even (x * 10) \<le> 1000" by (rule round_half_even_le)
  then have "real_of_int (round_half_even (x * 10)) \<le> 1000" by linarith
  then show "py_round 1 x \<le> 100" by (simp add: py_round_def)
qed

subsection \<open>The exponential cell estimate\<close>

lemma estimate_cells_floor:
  "estimate_cells s = \<lfloor>clip (100 * exp (s * (115 / 1000))) 100 20000000\<rfloor>"
proof -
  have "(100::real) \<le> clip (100 * exp (s * (115 / 1000))) 100 20000000"
    by (rule clip_lower) simp
  then show ?thesis by (simp add: estimate_cells_def py_int_def)
qed

lemma estimate_cells_mono: "s \<le> t \<Longrightarrow> estimate_cells s \<le> estimate_cells t"
  unfolding estimate_cells_floor
  by (intro floor_mono clip_mono) simp

lemma exp_half_sum_lower:
  "(16487212706 / 10000000000 :: real) \<le> (\<Sum>m<12. ((1/2::real) ^ m) / fact m)"
  by (simp add: lessThan_nat_numeral lessThan_Suc fact_numeral power_divide)

lemma exp_half_sum_upper:
  "(\<Sum>m<12. ((1/2::real) ^ m) / fact m) + (3 / fact 12) * (1/2) ^ 12
     \<le> (16487212708 / 10000000000 :: real)"
  by (simp add: lessThan_nat_numeral lessThan_Suc fact_numeral power_divide)

lemma exp_half_lower: "(16487212706 / 10000000000 :: real) \<le> exp (1/2)"
proof -
  obtain t :: real where
    e: "exp (1/2) = (\<Sum>m<12. ((1/2::real) ^ m) / fact m) + (exp t / fact 12) * (1/2) ^ 12"
    using Maclaurin_exp_le [of "1/2" 12] by blast
  have "0 \<le> (exp t / fact 12) * (1/2::real) ^ 12" by simp
  then have "(\<Sum>m<12. ((1/2::real) ^ m) / fact m) \<le> exp (1/2)" using e by linarith
  then show ?thesis using exp_half_sum_lower by linarith
qed

lemma exp_half_upper: "exp (1/2) \<le> (16487212708 / 10000000000 :: real)"
proof -
  obtain t :: real where t: "\<bar>t\<bar> \<le> \<bar>1/2\<bar>"
    and e: "exp (1/2) = (\<Sum>m<12. ((1/2::real) ^ m) / fact m) + (exp t / fact 12) * (1/2) ^ 12"
    using Maclaurin_exp_le [of "1/2" 12] by blast
  have "t \<le> 1" using t by simp
  then have "exp t \<le> exp 1" by simp
  also have "\<dots> \<le> 3" by (rule exp_le)
  finally have "exp t \<le> 3" .
  then have "(exp t / fact 12) * (1/2::real) ^ 12 \<le> (3 / fact 12) * (1/2) ^ 12"
    by (intro mult_right_mono divide_right_mono) simp_all
  then have "exp (1/2) \<le> (\<Sum>m<12. ((1/2::real) ^ m) / fact m) + (3 / fact 12) * (1/2) ^ 12"
    using e by linarith
  then show ?thesis using exp_half_sum_upper by linarith
qed

lemma exp_23_half: "exp (23/2::real) = exp (1/2) ^ 23"
  using exp_of_nat_mult [of 23 "1/2::real"] by simp

lemma exp_23_half_lower: "(9871577 / 100 :: real) \<le> exp (23/2)"
proof -
  have "(9871577 / 100 :: real) \<le> (16487212706 / 10000000000) ^ 23"
    by (simp add: power_divide)
  also have "\<dots> \<le> exp (1/2) ^ 23"
    by (rule power_mono [OF exp_half_lower]) simp
  finally show ?thesis by (simp only: exp_23_half)
qed

lemma exp_23_half_upper: "exp (23/2::real) < 9871578 / 100"
proof -
  have "exp (1/2::real) ^ 23 \<le> (16487212708 / 10000000000) ^ 23"
    by (rule power_mono [OF exp_half_upper]) simp
  also have "\<dots> < 9871578 / 100" by (simp add: power_divide)
  finally show ?thesis by (simp only: exp_23_half)
qed

lemma exp_23_quarter_lower: "(31419 / 100 :: real) \<le> exp (23/4)"
proof -
  have sq: "exp (23/4::real) ^ 2 = exp (23/2)"
    using exp_double [of "23/4::real"] by simp
  have "(31419 / 100 :: real) ^ 2 \<le> exp (23/4) ^ 2"
    unfolding sq using exp_23_half_lower by (simp add: power_divide)
  then show ?thesis by (simp add: power2_le_iff_abs_le)
qed

lemma exp_23_quarter_upper: "exp (23/4::real) < 31420 / 100"
proof -
  have sq: "exp (23/4::real) ^ 2 = exp (23/2)"
    using exp_double [of "23/4::real"] by simp
  have "exp (23/4::real) ^ 2 < (31420 / 100) ^ 2"
    unfolding sq using exp_23_half_upper by (simp add: power_divide)
  then show ?thesis by (rule power2_less_imp_less) simp
qed

lemma estimate_cells_100: "estimate_cells 100 = 9871577"
proof -
  have e: "(100::real) * (115 / 1000) = 23 / 2" by simp
  have lo: "(9871577::real) \<le> 100 * exp (23/2)" using exp_23_half_lower by simp
  have hi: "100 * exp (23/2::real) < 9871578" using exp_23_half_upper by simp
  have c: "clip (100 * exp (23/2)) 100 20000000 = 100 * exp (23/2)"
    by (rule clip_id) (use lo hi in linarith)+
  have "\<lfloor>100 * exp (23/2::real)\<rfloor> = 9871577"
    using lo hi by (simp add: floor_eq_iff)
  then show ?thesis by (simp only: estimate_cells_floor e c)
qed

lemma estimate_cells_50: "estimate_cells 50 = 31419"
proof -
  have e: "(50::real) * (115 / 1000) = 23 / 4" by simp
  have lo: "(31419::real) \<le> 100 * exp (23/4)" using exp_23_quarter_lower by simp
  have hi: "100 * exp (23/4::real) < 31420" using exp_23_quarter_upper by simp
  have c: "clip (100 * exp (23/4)) 100 20000000 = 100 * exp (23/4)"
    by (rule clip_id) (use lo hi in linarith)+
  have "\<lfloor>100 * exp (23/4::real)\<rfloor> = 31419"
    using lo hi by (simp add: floor_eq_iff)
  then show ?thesis by (simp only: estimate_cells_floor e c)
qed

lemma estimate_cells_upper: "s \<le> 100 \<Longrightarrow> estimate_cells s \<le> 9871577"
  using estimate_cells_mono [of s 100] by (simp only: estimate_cells_100)

lemma estimate_cells_lower: "100 \<le> estimate_cells s"
proof -
  have "(100::real) \<le> clip (100 * exp (s * (115 / 1000))) 100 20000000"
    by (rule clip_lower) simp
  then show ?thesis unfolding estimate_cells_floor by (simp add: le_floor_iff)
qed

subsection \<open>Risk bands\<close>

lemma classify_risk_fst:
  "fst (classify_risk score) =
     (if score < 25 then SAFE else if score < 50 then LOW
      else if score < 75 then WARNING else CRITICAL)"
  by (simp add: classify_risk_def)

text \<open>
  Claim C5. The risk level is a piecewise function of the score with four bands, each
  closed below and open above: under 25 SAFE, from 25 to under 50 LOW, from 50 to under
  75 WARNING, 75 and above CRITICAL, with the colour and emoji of the band; the six
  boundary scores of the specification land as it says.
\<close>

theorem classify_risk_bands:
  "(score < 25 \<longrightarrow> classify_risk score = (SAFE, ''#2ecc71'', CheckMark)) \<and>
   (25 \<le> score \<and> score < 50 \<longrightarrow> classify_risk score = (LOW, ''#f1c40f'', WarningSign)) \<and>
   (50 \<le> score \<and> score < 75 \<longrightarrow> classify_risk score = (WARNING, ''#e67e22'', OrangeCircle)) \<and>
   (75 \<le> score \<longrightarrow> classify_risk score = (CRITICAL, ''#e74c3c'', RedCircle)) \<and>
   fst (classify_risk (249 / 10)) = SAFE \<and>
   fst (classify_risk 25) = LOW \<and>
   fst (classify_risk (499 / 10)) = LOW \<and>
   fst (classify_risk 50) = WARNING \<and>
   fst (classify_risk (749 / 10)) = WARNING \<and>
   fst (classify_risk 75) = CRITICAL"
  by (simp add: classify_risk_def)

theorem classify_risk_bands_witness:
  "(249 / 10 :: real) < 25 \<and> classify_risk (249 / 10) = (SAFE, ''#2ecc71'', CheckMark) \<and>
   (25 :: real) \<le> 25 \<and> (25 :: real) < 50 \<and> classify_risk 25 = (LOW, ''#f1c40f'', WarningSign) \<and>
   (50 :: real) \<le> 50 \<and> (50 :: real) < 75 \<and> classify_risk 50 = (WARNING, ''#e67e22'', OrangeCircle) \<and>
   (75 :: real) \<le> 75 \<and> classify_risk 75 = (CRITICAL, ''#e74c3c'', RedCircle)"
  using classify_risk_bands [of "249 / 10"] classify_risk_bands [of 25]
    classify_risk_bands [of 50] classify_risk_bands [of 75]
  by simp

subsection \<open>Calibration of the cell estimate\<close>

text \<open>
  At score 100 the estimate is 9871577 cells, less than half of the 20 million the
  specification's calibration names.
\<close>

theorem estimate_cells_calibration_counterexample:
  "estimate_cells 100 = 9871577 \<and> 2 * estimate_cells 100 < 20000000"
  by (simp only: estimate_cells_100) simp

text \<open>
  Claim C1, amended. For every score the estimated concentration is the clamp of
  \<open>100 * exp (0.115 * score)\<close> to \<open>[100, 20000000]\<close> truncated to an integer, and it
  is monotone (non-decreasing) in the score. The calibration is score 0 to 100 cells,
  score 50 to 31419 cells and score 100 to 9871577 cells, so that the upper clamp of
  20 million is never reached up to score 100; the specification's "about 20 million
  at 100" is not what the formula gives.
\<close>

theorem estimate_cells_spec:
  "estimate_cells s = \<lfloor>clip (100 * exp (115 / 1000 * s)) 100 20000000\<rfloor> \<and>
   (s \<le> t \<longrightarrow> estimate_cells s \<le> estimate_cells t) \<and>
   estimate_cells 0 = 100 \<and>
   estimate_cells 50 = 31419 \<and>
   estimate_cells 100 = 9871577 \<and>
   (s \<le> 100 \<longrightarrow> estimate_cells s < 20000000)"
proof -
  have "estimate_cells 0 = 100"
    by (simp add: estimate_cells_floor clip_def)
  moreover have "estimate_cells s < 20000000" if "s \<le> 100"
    using estimate_cells_upper [OF that] by simp
  ultimately show ?thesis
    using estimate_cells_floor [of s] estimate_cells_mono [of s t]
      estimate_cells_50 estimate_cells_100
    by (simp add: mult.commute)
qed

theorem estimate_cells_spec_witness:
  "(50 :: real) \<le> 100 \<and> estimate_cells 50 \<le> estimate_cells 100 \<and>
   estimate_cells 50 = 31419 \<and> estimate_cells 100 = 9871577"
proof -
  have h: "(50 :: real) \<le> 100" by simp
  from estimate_cells_spec [of 50 100] h show ?thesis by blast
qed

subsection \<open>WHO severity of the estimate\<close>

lemma who_severity_not_very_high:
  "s \<le> 100 \<Longrightarrow> who_severity_of (estimate_cells s) \<noteq> very_high_risk"
  using estimate_cells_upper [of s] by (simp add: who_severity_of_def)

text \<open>
  Claim C4. On the clamped range \<open>[0, 100]\<close> the estimate is at most
  \<open>100 * exp 11.5\<close>, that is at most 9871577 cells, strictly below the 10000000-cell
  breakpoint, so the WHO severity of the estimate is never \<open>very_high_risk\<close>; and both
  aggregators, whose score is clamped to that range before the estimate, never report it.
\<close>

theorem never_very_high_risk:
  "(0 \<le> s \<and> s \<le> 100 \<longrightarrow>
      real_of_int (estimate_cells s) \<le> 100 * exp (115 / 10) \<and>
      estimate_cells s \<le> 9871577 \<and>
      estimate_cells s < 10000000 \<and>
      who_severity_of (estimate_cells s) \<noteq> very_high_risk) \<and>
   who_severity (compute_bloom_probability t_score n_score s_score l_score mu cyfi)
      \<noteq> very_high_risk \<and>
   who_severity (calculate_bloom_risk t_score n_score s_score l_score growth_mu)
      \<noteq> very_high_risk"
proof (intro conjI impI)
  assume s: "0 \<le> s \<and> s \<le> 100"
  have "real_of_int (estimate_cells s) \<le> real_of_int (estimate_cells 100)"
    using estimate_cells_mono [of s 100] s by simp
  also have "\<dots> \<le> 100 * exp (100 * (115 / 1000))"
    unfolding estimate_cells_floor
    by (rule order_trans [OF of_int_floor_le]) (simp add: clip_def)
  finally show "real_of_int (estimate_cells s) \<le> 100 * exp (115 / 10)" by simp
  show "estimate_cells s \<le> 9871577" using s estimate_cells_upper by simp
  then show "estimate_cells s < 10000000" by simp
  show "who_severity_of (estimate_cells s) \<noteq> very_high_risk"
    using s who_severity_not_very_high by simp
next
  let ?x = "clip ((30 / 100) * t_score + (25 / 100) * n_score + (20 / 100) * s_score
                       + (10 / 100) * l_score
                       + (15 / 100) * clip ((case mu of None \<Rightarrow> 0 | Some m \<Rightarrow> m) / (12 / 10) * 100) 0 100
                  + cyfi_adjustment cyfi) 0 100"
  have "py_round 1 ?x \<le> 100"
    by (rule py_round_1_range) (simp_all add: clip_lower clip_upper)
  then have "who_severity_of (estimate_cells (py_round 1 ?x)) \<noteq> very_high_risk"
    by (rule who_severity_not_very_high)
  then show "who_severity (compute_bloom_probability t_score n_score s_score l_score mu cyfi)
      \<noteq> very_high_risk"
    by (simp add: compute_bloom_probability_def Let_def)
next
  let ?x = "clip (raw_bloom_risk t_score n_score s_score l_score growth_mu) 0 100"
  have "py_round 1 ?x \<le> 100"
    by (rule py_round_1_range) (simp_all add: clip_lower clip_upper)
  then have "who_severity_of (estimate_cells (py_round 1 ?x)) \<noteq> very_high_risk"
    by (rule who_severity_not_very_high)
  then show "who_severity (calculate_bloom_risk t_score n_score s_score l_score growth_mu)
      \<noteq> very_high_risk"
    by (simp add: calculate_bloom_risk_def Let_def)
qed

theorem never_very_high_risk_witness:
  "(0 :: real) \<le> 100 \<and> (100 :: real) \<le> 100 \<and> estimate_cells 100 < 10000000 \<and>
   who_severity_of (estimate_cells 100) \<noteq> very_high_risk"
  using never_very_high_risk [of 100] by simp

subsection \<open>Interaction boost of the geometric-mean aggregator\<close>

lemma clip_positive: "0 < clip x (1 / 1000) 100"
proof -
  have "(1 / 1000 :: real) \<le> clip x (1 / 1000) 100" by (rule clip_lower) simp
  then show ?thesis by linarith
qed

lemma geo_mean_closed_form:
  "geo_mean t_score n_score s_score l_score mu =
     exp ((30 / 100) * ln (clip t_score (1 / 1000) 100)
          + (25 / 100) * ln (clip n_score (1 / 1000) 100)
          + (20 / 100) * ln (clip s_score (1 / 1000) 100)
          + (10 / 100) * ln (clip l_score (1 / 1000) 100)
          + (15 / 100) * ln (clip (clip (mu / (12 / 10) * 100) 0 100) (1 / 1000) 100))"
  by (simp add: geo_mean_def Let_def)

lemma geo_mean_product:
  "geo_mean t_score n_score s_score l_score mu =
     clip t_score (1 / 1000) 100 powr (30 / 100)
     * clip n_score (1 / 1000) 100 powr (25 / 100)
     * clip s_score (1 / 1000) 100 powr (20 / 100)
     * clip l_score (1 / 1000) 100 powr (10 / 100)
     * clip (clip (mu / (12 / 10) * 100) 0 100) (1 / 1000) 100 powr (15 / 100)"
proof -
  have p: "clip x (1 / 1000) 100 powr a = exp (a * ln (clip x (1 / 1000) 100))" for x a
    using clip_positive [of x] by (simp add: powr_def)
  show ?thesis unfolding geo_mean_closed_form p by (simp only: exp_add)
qed

lemma clip_70: "clip 70 (1 / 1000) 100 = 70"
  by (simp add: clip_def)

text \<open>
  Claim C8. With temperature and nutrient scores both 70 the interaction boost is
  \<open>0.10 * min 70 70 = 7\<close> and the returned boost is 7. The score before clamping and
  rounding is the weighted geometric mean plus 7, where the geometric mean is
  \<open>exp (\<Sum> w\<^sub>i * ln s\<^sub>i)\<close>, equally the product of the \<open>s\<^sub>i powr w\<^sub>i\<close>, over the five
  sub-scores clamped to \<open>[0.001, 100]\<close> with the weights 0.30, 0.25, 0.20, 0.10 and
  0.15; the returned score is that sum clamped to \<open>[0, 100]\<close> and rounded. In general
  the boost is \<open>0.10 * min T N\<close> when both scores exceed 60 and 0 when either is at
  most 60.
\<close>

theorem interaction_boost_additive:
  "interaction_boost_of 70 70 = 7 \<and>
   raw_bloom_risk 70 70 s_score l_score mu = geo_mean 70 70 s_score l_score mu + 7 \<and>
   interaction_boost (calculate_bloom_risk 70 70 s_score l_score mu) = 7 \<and>
   risk_score (calculate_bloom_risk t_score n_score s_score l_score mu) =
     py_round 1 (clip (geo_mean t_score n_score s_score l_score mu
                       + interaction_boost_of t_score n_score) 0 100) \<and>
   (60 < t_score \<and> 60 < n_score \<longrightarrow>
      interaction_boost_of t_score n_score = (10 / 100) * min t_score n_score) \<and>
   (t_score \<le> 60 \<or> n_score \<le> 60 \<longrightarrow> interaction_boost_of t_score n_score = 0) \<and>
   geo_mean t_score n_score s_score l_score mu =
     exp ((30 / 100) * ln (clip t_score (1 / 1000) 100)
          + (25 / 100) * ln (clip n_score (1 / 1000) 100)
          + (20 / 100) * ln (clip s_score (1 / 1000) 100)
          + (10 / 100) * ln (clip l_score (1 / 1000) 100)
          + (15 / 100) * ln (clip (clip (mu / (12 / 10) * 100) 0 100) (1 / 1000) 100)) \<and>
   geo_mean t_score n_score s_score l_score mu =
     clip t_score (1 / 1000) 100 powr (30 / 100)
     * clip n_score (1 / 1000) 100 powr (25 / 100)
     * clip s_score (1 / 1000) 100 powr (20 / 100)
     * clip l_score (1 / 1000) 100 powr (10 / 100)
     * clip (clip (mu / (12 / 10) * 100) 0 100) (1 / 1000) 100 powr (15 / 100) \<and>
   raw_bloom_risk 70 70 s_score l_score mu =
     exp ((30 / 100) * ln 70 + (25 / 100) * ln 70
          + (20 / 100) * ln (clip s_score (1 / 1000) 100)
          + (10 / 100) * ln (clip l_score (1 / 1000) 100)
          + (15 / 100) * ln (clip (clip (mu / (12 / 10) * 100) 0 100) (1 / 1000) 100))
     + 7 \<and>
   risk_score (calculate_bloom_risk 70 70 s_score l_score mu) =
     py_round 1 (clip
       (exp ((30 / 100) * ln 70 + (25 / 100) * ln 70
             + (20 / 100) * ln (clip s_score (1 / 1000) 100)
             + (10 / 100) * ln (clip l_score (1 / 1000) 100)
             + (15 / 100) * ln (clip (clip (mu / (12 / 10) * 100) 0 100) (1 / 1000) 100))
        + 7) 0 100)"
proof -
  have "round_half_even (real_of_int 700) = 700" by (rule round_half_even_of_int)
  then have r: "py_round 2 7 = 7" by (simp add: py_round_def)
  have b: "interaction_boost_of 70 70 = 7" by (simp add: interaction_boost_of_def)
  have g70: "geo_mean 70 70 s_score l_score mu =
      exp ((30 / 100) * ln 70 + (25 / 100) * ln 70
          + (20 / 100) * ln (clip s_score (1 / 1000) 100)
          + (10 / 100) * ln (clip l_score (1 / 1000) 100)
          + (15 / 100) * ln (clip (clip (mu / (12 / 10) * 100) 0 100) (1 / 1000) 100))"
    unfolding geo_mean_closed_form clip_70 ..
  have raw: "raw_bloom_risk 70 70 s_score l_score mu = geo_mean 70 70 s_score l_score mu + 7"
    by (simp add: raw_bloom_risk_def b)
  have rs: "risk_score (calculate_bloom_risk t n s_score l_score mu) =
      py_round 1 (clip (geo_mean t n s_score l_score mu + interaction_boost_of t n) 0 100)" for t n
    by (simp add: calculate_bloom_risk_def raw_bloom_risk_def Let_def)
  have ib: "interaction_boost (calculate_bloom_risk 70 70 s_score l_score mu) = 7"
    by (simp add: calculate_bloom_risk_def Let_def b r)
  have c5: "60 < t_score \<and> 60 < n_score \<longrightarrow>
      interaction_boost_of t_score n_score = (10 / 100) * min t_score n_score"
    by (simp add: interaction_boost_of_def)
  have c6: "t_score \<le> 60 \<or> n_score \<le> 60 \<longrightarrow> interaction_boost_of t_score n_score = 0"
    by (auto simp: interaction_boost_of_def)
  have raw70: "raw_bloom_risk 70 70 s_score l_score mu =
     exp ((30 / 100) * ln 70 + (25 / 100) * ln 70
          + (20 / 100) * ln (clip s_score (1 / 1000) 100)
          + (10 / 100) * ln (clip l_score (1 / 1000) 100)
          + (15 / 100) * ln (clip (clip (mu / (12 / 10) * 100) 0 100) (1 / 1000) 100))
     + 7"
    unfolding raw g70 ..
  have rs70: "risk_score (calculate_bloom_risk 70 70 s_score l_score mu) =
     py_round 1 (clip
       (exp ((30 / 100) * ln 70 + (25 / 100) * ln 70
             + (20 / 100) * ln (clip s_score (1 / 1000) 100)
             + (10 / 100) * ln (clip l_score (1 / 1000) 100)
             + (15 / 100) * ln (clip (clip (mu / (12 / 10) * 100) 0 100) (1 / 1000) 100))
        + 7) 0 100)"
    unfolding rs b g70 ..
  show ?thesis
    using b raw ib rs [of t_score n_score] c5 c6
      geo_mean_closed_form [of t_score n_score s_score l_score mu]
      geo_mean_product [of t_score n_score s_score l_score mu] raw70 rs70
    by blast
qed

theorem interaction_boost_additive_witness:
  "(60 :: real) < 80 \<and> (60 :: real) < 65 \<and> interaction_boost_of 80 65 = 65 / 10 \<and>
   (50 :: real) \<le> 60 \<and> interaction_boost_of 50 90 = 0 \<and>
   geo_mean 100 100 100 100 (12 / 10) = 100"
proof -
  have h: "(60 :: real) < 80 \<and> (60 :: real) < 65" "(50 :: real) \<le> 60 \<or> (90 :: real) \<le> 60"
    by simp_all
  have a: "interaction_boost_of 80 65 = 65 / 10"
    using interaction_boost_additive [where t_score = 80 and n_score = 65] h(1) by simp
  have b: "interaction_boost_of 50 90 = 0"
    using interaction_boost_additive [where t_score = 50 and n_score = 90] h(2) by blast
  have "geo_mean 100 100 100 100 (12 / 10) =
      exp ((30 / 100) * ln 100 + (25 / 100) * ln 100 + (20 / 100) * ln 100
           + (10 / 100) * ln 100 + (15 / 100) * ln 100)"
    using interaction_boost_additive [where t_score = 100 and n_score = 100
        and s_score = 100 and l_score = 100 and mu = "12 / 10"]
    by (simp add: clip_def)
  also have "\<dots> = exp (ln 100)" by (simp add: algebra_simps)
  also have "\<dots> = 100" by simp
  finally have c: "geo_mean 100 100 100 100 (12 / 10) = 100" .
  show ?thesis using a b c by simp
qed

subsection \<open>Cardinal-temperature correction\<close>

lemma py_round_of_int_div:
  "py_round nd (of_int k / 10 ^ nd) = of_int k / 10 ^ nd"
  by (simp add: py_round_def round_half_even_of_int)

lemma arrhenius_outside:
  "water_temp \<le> 5 \<or> 40 \<le> water_temp \<Longrightarrow> arrhenius_correction water_temp = 1 / 100"
  by (auto simp: arrhenius_correction_def)

lemma arrhenius_28: "arrhenius_correction 28 = 1"
  by (simp add: arrhenius_correction_def clip_def)

text \<open>
  Claim C7. The cardinal-temperature correction is exactly 0.01 for every water
  temperature at most 5 or at least 40, and its value at 28 (which is 1) is strictly
  larger than its value at 5 and at 40; \<open>compute_growth_rate\<close> reports these values
  in its \<open>temp_correction\<close> field.
\<close>

theorem temp_correction_floor_and_optimum:
  "(water_temp \<le> 5 \<or> 40 \<le> water_temp \<longrightarrow> arrhenius_correction water_temp = 1 / 100) \<and>
   arrhenius_correction 5 = 1 / 100 \<and>
   arrhenius_correction 40 = 1 / 100 \<and>
   arrhenius_correction 5 < arrhenius_correction 28 \<and>
   arrhenius_correction 40 < arrhenius_correction 28 \<and>
   temp_correction (compute_growth_rate t_score n_score l_score s_score water_temp) =
     py_round 3 (arrhenius_correction water_temp) \<and>
   temp_correction (compute_growth_rate t_score n_score l_score s_score 5) = 1 / 100 \<and>
   temp_correction (compute_growth_rate t_score n_score l_score s_score 40) = 1 / 100 \<and>
   temp_correction (compute_growth_rate t_score n_score l_score s_score 28) = 1"
proof -
  have r1: "py_round 3 (1 / 100) = 1 / 100"
    using py_round_of_int_div [of 3 10] by simp
  have r2: "py_round 3 1 = 1"
    using py_round_of_int_div [of 3 1000] by simp
  have tc: "temp_correction (compute_growth_rate t_score n_score l_score s_score w) =
      py_round 3 (arrhenius_correction w)" for w
    by (simp add: compute_growth_rate_def Let_def)
  have a5: "arrhenius_correction 5 = 1 / 100" by (rule arrhenius_outside) simp
  have a40: "arrhenius_correction 40 = 1 / 100" by (rule arrhenius_outside) simp
  show ?thesis
    using arrhenius_outside [of water_temp]
    by (simp add: tc a5 a40 arrhenius_28 r1 r2)
qed

theorem temp_correction_floor_and_optimum_witness:
  "((3 :: real) \<le> 5 \<or> (40 :: real) \<le> 3) \<and> arrhenius_correction 3 = 1 / 100 \<and>
   ((45 :: real) \<le> 5 \<or> (40 :: real) \<le> 45) \<and> arrhenius_correction 45 = 1 / 100"
  using temp_correction_floor_and_optimum [of 3] temp_correction_floor_and_optimum [of 45]
  by simp

subsection \<open>Photoperiod and light score\<close>

lemma np_arccos_clip:
  "\<exists>ha. np_arccos (clip c (- 1) 1) = Some ha \<and> 0 \<le> ha \<and> ha \<le> pi"
proof -
  have lo: "- 1 \<le> clip c (- 1) 1" by (rule clip_lower) simp
  have hi: "clip c (- 1) 1 \<le> 1" by (rule clip_upper)
  show ?thesis
    using lo hi arccos_lbound [OF lo hi] arccos_ubound [OF lo hi]
    by (simp add: np_arccos_def)
qed

lemma photoperiod_total:
  "\<exists>h. photoperiod latitude day_of_year = Some h \<and> 0 \<le> h \<and> h \<le> 24"
proof -
  define c where "c = - tan (radians latitude) *
      tan (radians ((2344 / 100) * cos (radians (of_int ((172 - day_of_year) * 360) / 365))))"
  obtain ha where ha: "np_arccos (clip c (- 1) 1) = Some ha" "0 \<le> ha" "ha \<le> pi"
    using np_arccos_clip by blast
  have p: "photoperiod latitude day_of_year = Some (24 * ha / pi)"
    using ha(1) by (simp add: photoperiod_def Let_def c_def)
  have "0 \<le> 24 * ha / pi" using ha(2) by simp
  moreover have "24 * ha / pi \<le> 24" using ha(3) pi_gt_zero by (simp add: pos_divide_le_eq)
  ultimately show ?thesis using p by blast
qed

lemma unit_product:
  fixes a b c :: real
  assumes "0 \<le> a" "a \<le> 1" "0 \<le> b" "b \<le> 1" "0 \<le> c" "c \<le> 1"
  shows "0 \<le> a * b * c * 100" "a * b * c * 100 \<le> 100"
proof -
  have ab: "0 \<le> a * b" using assms by simp
  have ab1: "a * b \<le> 1" using assms by (simp add: mult_le_one)
  show "0 \<le> a * b * c * 100" using ab assms by simp
  have "a * b * c \<le> 1" using ab ab1 assms by (simp add: mult_le_one)
  then show "a * b * c * 100 \<le> 100" by simp
qed

text \<open>
  Claim C10. For every latitude and day of year the light score is total: the clamped
  hour-angle cosine is always in the domain of the arc cosine, the photoperiod is a
  number between 0 and 24 hours, and \<open>compute_light_score\<close> returns a number between
  0 and 100, whatever the UV index and cloud cover.
\<close>

theorem light_score_total_and_bounded:
  "(\<exists>ha. np_arccos (clip c (- 1) 1) = Some ha) \<and>
   (\<exists>h. photoperiod latitude day_of_year = Some h \<and> 0 \<le> h \<and> h \<le> 24) \<and>
   (\<exists>v. compute_light_score uv_index cloud_cover latitude day_of_year = Some v
        \<and> 0 \<le> v \<and> v \<le> 100)"
proof -
  obtain h where h: "photoperiod latitude day_of_year = Some h"
    using photoperiod_total by blast
  let ?u = "normalize_uv uv_index"
  let ?d = "clip (h / 24) 0 1"
  let ?c = "cloud_suppression cloud_cover"
  have u: "0 \<le> ?u" "?u \<le> 1" by (simp_all add: normalize_uv_def clip_lower clip_upper)
  have d: "0 \<le> ?d" "?d \<le> 1" by (simp_all add: clip_lower clip_upper)
  have c: "0 \<le> ?c" "?c \<le> 1"
    by (simp_all add: cloud_suppression_def Let_def clip_lower clip_upper)
  have v: "compute_light_score uv_index cloud_cover latitude day_of_year = Some (?u * ?d * ?c * 100)"
    using h by (simp add: compute_light_score_def Let_def)
  have "0 \<le> ?u * ?d * ?c * 100" "?u * ?d * ?c * 100 \<le> 100"
    using unit_product [OF u d c] by simp_all
  then show ?thesis using v np_arccos_clip photoperiod_total by blast
qed

lemma photoperiod_equator: "photoperiod 0 d = Some 12"
  by (simp add: photoperiod_def radians_def np_arccos_def clip_def Let_def)

subsection \<open>Theil-Sen slope\<close>

lemma set_combinations2: "set (combinations2 n) = {(i, j). i < j \<and> j < n}"
proof (intro set_eqI iffI)
  fix p assume "p \<in> set (combinations2 n)"
  then show "p \<in> {(i, j). i < j \<and> j < n}" by (auto simp: combinations2_def)
next
  fix p :: "nat \<times> nat" assume "p \<in> {(i, j). i < j \<and> j < n}"
  then obtain i j where p: "p = (i, j)" "i < j" "j < n" by auto
  then have "i \<in> set [0..<n]" "(i, j) \<in> set (map (\<lambda>j. (i, j)) [Suc i..<n])" by auto
  then show "p \<in> set (combinations2 n)" unfolding combinations2_def p(1) set_concat by auto
qed

lemma sum_list_descending: "sum_list (map (\<lambda>i. n - Suc i) [0..<n]) = (\<Sum>i<n. i)"
proof -
  have "sum_list (map (\<lambda>i. n - Suc i) [0..<n]) = (\<Sum>i<n. n - Suc i)"
    by (simp add: interv_sum_list_conv_sum_set_nat atLeast0LessThan)
  also have "\<dots> = (\<Sum>i<n. i)" by (rule sum.nat_diff_reindex)
  finally show ?thesis .
qed

lemma gauss_below: "2 * (\<Sum>i<n. i) = n * (n - 1)" for n :: nat
  by (induction n) (auto simp: algebra_simps)

lemma length_combinations2: "length (combinations2 n) = n * (n - 1) div 2"
proof -
  have "length (combinations2 n) = sum_list (map (\<lambda>i. n - Suc i) [0..<n])"
    by (simp add: combinations2_def length_concat comp_def)
  then have "2 * length (combinations2 n) = n * (n - 1)"
    by (simp add: sum_list_descending gauss_below)
  then show ?thesis by simp
qed

lemma filter_combinations2:
  "filter (\<lambda>(i, j). int j - int i \<noteq> 0) (combinations2 n) = combinations2 n"
  by (rule filter_True) (auto simp: set_combinations2)

lemma length_pairwise_slopes: "length (pairwise_slopes x) = length x * (length x - 1) div 2"
  unfolding pairwise_slopes_def filter_combinations2 by (simp add: length_combinations2)

lemma pairwise_slopes_nonempty: "2 \<le> length x \<Longrightarrow> pairwise_slopes x \<noteq> []"
proof -
  assume n: "2 \<le> length x"
  have "(0, 1) \<in> set (combinations2 (length x))" using n by (simp add: set_combinations2)
  then have "combinations2 (length x) \<noteq> []" by auto
  then show ?thesis unfolding pairwise_slopes_def filter_combinations2 by simp
qed

text \<open>
  On the empty series and on a one-point series the estimator returns a value, the
  fallback record, where the specification asks for an explicit error.
\<close>

theorem sens_slope_short_counterexample:
  "sens_slope [] = \<lparr> slope = 0, intercept = 0, n_slopes = 0 \<rparr> \<and>
   sens_slope [5] = \<lparr> slope = 0, intercept = 5, n_slopes = 0 \<rparr>"
  by (simp add: sens_slope_def)

text \<open>
  Claim C3, amended. With fewer than two points \<open>sens_slope\<close> raises nothing: it
  returns the fallback record with slope 0, no pairwise slopes, and as intercept the
  single value (or 0 for an empty series). With two or more points it returns the
  rounded median of the \<open>n (n - 1) / 2\<close> pairwise slopes.
\<close>

theorem sens_slope_short_fallback:
  "(length x < 2 \<longrightarrow>
      sens_slope x = \<lparr> slope = 0, intercept = (if length x = 1 then x ! 0 else 0),
                        n_slopes = 0 \<rparr>) \<and>
   (2 \<le> length x \<longrightarrow>
      slope (sens_slope x) = py_round 6 (median (pairwise_slopes x)) \<and>
      n_slopes (sens_slope x) = length x * (length x - 1) div 2 \<and>
      0 < n_slopes (sens_slope x))"
proof (intro conjI impI)
  assume "length x < 2"
  then show "sens_slope x = \<lparr> slope = 0, intercept = (if length x = 1 then x ! 0 else 0),
                        n_slopes = 0 \<rparr>"
    by (simp add: sens_slope_def)
next
  assume n: "2 \<le> length x"
  then have ne: "pairwise_slopes x \<noteq> []" by (rule pairwise_slopes_nonempty)
  show "slope (sens_slope x) = py_round 6 (median (pairwise_slopes x))"
    using n ne by (simp add: sens_slope_def Let_def)
  show c: "n_slopes (sens_slope x) = length x * (length x - 1) div 2"
    using n ne by (simp add: sens_slope_def Let_def length_pairwise_slopes)
  have "0 < length (pairwise_slopes x)" using ne by simp
  then show "0 < n_slopes (sens_slope x)"
    using c by (simp add: length_pairwise_slopes)
qed

theorem sens_slope_short_fallback_witness:
  "length [7 :: real] < 2 \<and> sens_slope [7] = \<lparr> slope = 0, intercept = 7, n_slopes = 0 \<rparr> \<and>
   2 \<le> length [1, 2, 3 :: real] \<and> n_slopes (sens_slope [1, 2, 3]) = 3"
  using sens_slope_short_fallback [of "[7]"] sens_slope_short_fallback [of "[1, 2, 3]"]
  by simp

subsection \<open>Lengths of the forecast arrays\<close>

lemma length_pad_default: "length (pad_default result n dflt) = max n (length result)"
proof (induction result n dflt rule: pad_default.induct)
  case (1 result n dflt)
  show ?case
  proof (cases "length result < n")
    case True
    then show ?thesis using "1.IH" by (subst pad_default.simps) simp
  next
    case False
    then show ?thesis by (subst pad_default.simps) simp
  qed
qed

lemma length_pad_scores: "length (pad_scores risk_scores current_risk) = max 7 (length risk_scores)"
proof (induction risk_scores current_risk rule: pad_scores.induct)
  case (1 risk_scores current_risk)
  show ?case
  proof (cases "length risk_scores < 7")
    case True
    then show ?thesis using "1.IH" by (subst pad_scores.simps) simp
  next
    case False
    then show ?thesis by (subst pad_scores.simps) simp
  qed
qed

lemma length_safe_slice_first: "length (safe_slice lst (SliceFirst n) n dflt) = n"
  by (simp add: safe_slice_def length_pad_default Let_def)

lemma length_safe_slice_from_end:
  "0 < n \<Longrightarrow> length (safe_slice lst (SliceFromEnd n) n dflt) = n"
  by (auto simp: safe_slice_def length_pad_default Let_def)

lemma risk_loop_total:
  "i + k \<le> length t_max \<Longrightarrow> i + k \<le> length t_min \<Longrightarrow>
   i + k \<le> length p_sum \<Longrightarrow> i + k \<le> length w_max \<Longrightarrow>
   \<exists>r. risk_loop current_risk t_max t_min p_sum w_max k i acc = Inr r
       \<and> length r = length acc + k"
proof (induction k arbitrary: i acc)
  case 0
  then show ?case by simp
next
  case (Suc k)
  let ?acc = "acc @ [py_round 1 (clip
      (if 0 < i
       then project_day current_risk (t_max ! i) (t_min ! i) (p_sum ! i) (w_max ! i) * (7 / 10)
            + last acc * (3 / 10)
       else project_day current_risk (t_max ! i) (t_min ! i) (p_sum ! i) (w_max ! i)) 0 100)]"
  have step: "risk_loop current_risk t_max t_min p_sum w_max (Suc k) i acc =
      risk_loop current_risk t_max t_min p_sum w_max k (Suc i) ?acc"
    using Suc.prems by (simp add: get_item_def Let_def)
  obtain r where "risk_loop current_risk t_max t_min p_sum w_max k (Suc i) ?acc = Inr r"
      "length r = length ?acc + k"
    using Suc.IH [of "Suc i" ?acc] Suc.prems by auto
  then show ?case using step by simp
qed

lemma forecast_lengths:
  "\<exists>r. build_7day_forecast fallback_date weather current_risk = Inr r
     \<and> length (fc_dates r) = 7
     \<and> length (fc_risk_scores r) = 7
     \<and> length (fc_temp_max r) = min 7 (length (time (case weather of None \<Rightarrow> empty_daily | Some w \<Rightarrow> w)))
     \<and> length (fc_temp_min r) = min 7 (length (time (case weather of None \<Rightarrow> empty_daily | Some w \<Rightarrow> w)))
     \<and> length (fc_precip r) = min 7 (length (time (case weather of None \<Rightarrow> empty_daily | Some w \<Rightarrow> w)))
     \<and> length (fc_wind_max r) = min 7 (length (time (case weather of None \<Rightarrow> empty_daily | Some w \<Rightarrow> w)))
     \<and> length (fc_uv_max r) = min 7 (length (time (case weather of None \<Rightarrow> empty_daily | Some w \<Rightarrow> w)))"
proof -
  define d where "d = (case weather of None \<Rightarrow> empty_daily | Some w \<Rightarrow> w)"
  define n where "n = min 7 (length (time d))"
  define slc where "slc = (if 7 < length (time d) then SliceFromEnd n else SliceFirst n)"
  have len: "length (safe_slice lst slc n dflt) = n" for lst dflt
  proof (cases "7 < length (time d)")
    case True
    then have "0 < n" by (simp add: n_def)
    then show ?thesis using True by (simp add: slc_def length_safe_slice_from_end)
  next
    case False
    then show ?thesis by (simp add: slc_def length_safe_slice_first)
  qed
  define t_max where "t_max = safe_slice (temperature_2m_max d) slc n 20"
  define t_min where "t_min = safe_slice (temperature_2m_min d) slc n 10"
  define p_sum where "p_sum = safe_slice (precipitation_sum d) slc n 0"
  define w_max where "w_max = safe_slice (wind_speed_10m_max d) slc n 10"
  define u_max where "u_max = safe_slice (uv_index_max d) slc n 3"
  have lens: "length t_max = n" "length t_min = n" "length p_sum = n" "length w_max = n"
      "length u_max = n"
    by (simp_all add: t_max_def t_min_def p_sum_def w_max_def u_max_def len)
  have n7: "n \<le> 7" by (simp add: n_def)
  obtain scores where sc:
      "risk_loop current_risk t_max t_min p_sum w_max (min 7 (length t_max)) 0 [] = Inr scores"
    using risk_loop_total [of 0 "min 7 (length t_max)" t_max t_min p_sum w_max current_risk "[]"]
      lens by auto
  define dates0 where "dates0 = (if time d \<noteq> [] then apply_slice slc (time d) else [])"
  define dates where "dates = (if length dates0 < 7 then map fallback_date [0..<7] else dates0)"
  have "length dates0 \<le> 7" by (auto simp: dates0_def slc_def n_def)
  then have ld: "length (take 7 dates) = 7" by (auto simp: dates_def)
  have b: "build_7day_forecast fallback_date weather current_risk =
      Inr \<lparr> fc_dates = take 7 dates,
            fc_risk_scores = take 7 (pad_scores scores current_risk),
            fc_temp_max = take 7 t_max, fc_temp_min = take 7 t_min,
            fc_precip = take 7 p_sum, fc_wind_max = take 7 w_max,
            fc_uv_max = take 7 u_max \<rparr>"
    using sc
    unfolding build_7day_forecast_def Let_def d_def [symmetric] n_def [symmetric]
      slc_def [symmetric] t_max_def [symmetric] t_min_def [symmetric] p_sum_def [symmetric]
      w_max_def [symmetric] u_max_def [symmetric] dates0_def [symmetric] dates_def [symmetric]
    by simp
  show ?thesis
    unfolding b d_def [symmetric] n_def [symmetric]
    using ld lens n7 by (simp add: length_pad_scores)
qed

lemma forecast_lengths_at:
  assumes "length (time (case weather of None \<Rightarrow> empty_daily | Some w \<Rightarrow> w)) = k" "k \<le> 7"
  shows "map_sum id (\<lambda>r. (length (fc_dates r), length (fc_risk_scores r),
            length (fc_temp_max r), length (fc_temp_min r), length (fc_precip r),
            length (fc_wind_max r), length (fc_uv_max r)))
          (build_7day_forecast fallback_date weather current_risk)
         = Inr (7, 7, k, k, k, k, k)"
proof -
  obtain r where "build_7day_forecast fallback_date weather current_risk = Inr r"
    "length (fc_dates r) = 7" "length (fc_risk_scores r) = 7"
    "length (fc_temp_max r) = min 7 k" "length (fc_temp_min r) = min 7 k"
    "length (fc_precip r) = min 7 k" "length (fc_wind_max r) = min 7 k"
    "length (fc_uv_max r) = min 7 k"
    using forecast_lengths [of fallback_date weather current_risk] unfolding assms(1) by blast
  then show ?thesis using assms(2) by simp
qed


text \<open>
  Claim C2, as the code behaves. \<open>build_7day_forecast\<close> always returns, and pads
  \<open>dates\<close> and \<open>risk_scores\<close> to seven entries, but the five weather lists keep the
  length \<open>min 7 (len time)\<close>: three entries for a three-day response and none when
  there is no weather data, where the claim and the docstring say seven.
\<close>

theorem forecast_short_input_not_padded:
  "map_sum id (\<lambda>r. (length (fc_dates r), length (fc_risk_scores r),
            length (fc_temp_max r), length (fc_temp_min r), length (fc_precip r),
            length (fc_wind_max r), length (fc_uv_max r)))
          (build_7day_forecast fallback_date (Some three_day_response) 40)
     = Inr (7, 7, 3, 3, 3, 3, 3) \<and>
   map_sum id (\<lambda>r. (length (fc_dates r), length (fc_risk_scores r),
            length (fc_temp_max r), length (fc_temp_min r), length (fc_precip r),
            length (fc_wind_max r), length (fc_uv_max r)))
          (build_7day_forecast fallback_date None 40)
     = Inr (7, 7, 0, 0, 0, 0, 0)"
proof
  show "map_sum id (\<lambda>r. (length (fc_dates r), length (fc_risk_scores r),
            length (fc_temp_max r), length (fc_temp_min r), length (fc_precip r),
            length (fc_wind_max r), length (fc_uv_max r)))
          (build_7day_forecast fallback_date (Some three_day_response) 40)
     = Inr (7, 7, 3, 3, 3, 3, 3)"
    by (rule forecast_lengths_at) (simp_all add: three_day_response_def)
  show "map_sum id (\<lambda>r. (length (fc_dates r), length (fc_risk_scores r),
            length (fc_temp_max r), length (fc_temp_min r), length (fc_precip r),
            length (fc_wind_max r), length (fc_uv_max r)))
          (build_7day_forecast fallback_date None 40)
     = Inr (7, 7, 0, 0, 0, 0, 0)"
    by (rule forecast_lengths_at) (simp_all add: empty_daily_def)
qed

subsection \<open>Seven-day trend slope\<close>

lemma sum_list_upt_conv: "sum_list (map f [0..<n]) = (\<Sum>i<n. f i)" for f :: "nat \<Rightarrow> real"
  by (simp add: interv_sum_list_conv_sum_set_nat atLeast0LessThan)

lemma sum_list_nth_conv: "sum_list ys = (\<Sum>i<length ys. ys ! i)" for ys :: "real list"
  by (simp add: sum_list_sum_nth atLeast0LessThan)

lemma mean_indices: "mean (map real [0..<n]) = (\<Sum>i<n. real i) / real n"
  by (simp add: mean_def sum_list_upt_conv)

lemma mean_values: "mean ys = (\<Sum>i<length ys. ys ! i) / real (length ys)"
  using sum_list_nth_conv [of ys] by (simp add: mean_def)

lemma centred_product_sum:
  fixes f g :: "nat \<Rightarrow> real"
  assumes n: "0 < n"
  shows "real n * (\<Sum>i<n. (f i - (\<Sum>i<n. f i) / real n) * (g i - (\<Sum>i<n. g i) / real n))
         = real n * (\<Sum>i<n. f i * g i) - (\<Sum>i<n. f i) * (\<Sum>i<n. g i)"
proof -
  define a where "a = (\<Sum>i<n. f i) / real n"
  define b where "b = (\<Sum>i<n. g i) / real n"
  have sa: "(\<Sum>i<n. f i) = real n * a" using n by (simp add: a_def)
  have sb: "(\<Sum>i<n. g i) = real n * b" using n by (simp add: b_def)
  have "(\<Sum>i<n. (f i - a) * (g i - b))
        = (\<Sum>i<n. f i * g i - b * f i - a * g i + a * b)"
    by (rule sum.cong) (simp_all add: algebra_simps)
  also have "\<dots> = (\<Sum>i<n. f i * g i) - b * (\<Sum>i<n. f i) - a * (\<Sum>i<n. g i) + real n * (a * b)"
    by (simp add: sum.distrib sum_subtractf sum_distrib_left)
  also have "\<dots> = (\<Sum>i<n. f i * g i) - real n * (a * b)"
    by (simp add: sa sb algebra_simps)
  finally have e: "(\<Sum>i<n. (f i - a) * (g i - b)) = (\<Sum>i<n. f i * g i) - real n * (a * b)" .
  have "real n * (\<Sum>i<n. (f i - a) * (g i - b))
      = real n * (\<Sum>i<n. f i * g i) - (real n * a) * (real n * b)"
    unfolding e by (simp add: algebra_simps)
  then show ?thesis using n by (simp add: a_def b_def)
qed

lemma ss_xy_normal:
  assumes "0 < length ys"
  shows "real (length ys) * ss_xy ys
         = real (length ys) * (\<Sum>i<length ys. real i * ys ! i)
           - (\<Sum>i<length ys. real i) * (\<Sum>i<length ys. ys ! i)"
  using centred_product_sum [OF assms, of real "\<lambda>i. ys ! i"]
  by (simp add: ss_xy_def Let_def sum_list_upt_conv mean_indices mean_values)

lemma ss_xx_normal:
  assumes "0 < length ys"
  shows "real (length ys) * ss_xx ys
         = real (length ys) * (\<Sum>i<length ys. (real i) ^ 2) - (\<Sum>i<length ys. real i) ^ 2"
  using centred_product_sum [OF assms, of real real]
  by (simp add: ss_xx_def Let_def sum_list_upt_conv mean_indices power2_eq_square)

lemma ss_xx_positive:
  assumes n: "2 \<le> length ys"
  shows "0 < ss_xx ys"
proof -
  define m where "m = mean (map real [0..<length ys])"
  have eq: "ss_xx ys = (\<Sum>i<length ys. (real i - m) ^ 2)"
    by (simp add: ss_xx_def Let_def sum_list_upt_conv m_def)
  have nonneg: "0 \<le> ss_xx ys" unfolding eq by (rule sum_nonneg) simp
  have "ss_xx ys \<noteq> 0"
  proof
    assume "ss_xx ys = 0"
    then have "\<forall>i\<in>{..<length ys}. (real i - m) ^ 2 = 0"
      unfolding eq by (subst (asm) sum_nonneg_eq_0_iff) simp_all
    then have "(real 0 - m) ^ 2 = 0" "(real 1 - m) ^ 2 = 0" using n by auto
    then show False by simp
  qed
  then show ?thesis using nonneg by simp
qed

lemma slope_is_ols:
  assumes n: "2 \<le> length ys"
  shows "ss_xy ys / ss_xx ys = ols_slope ys"
proof -
  have pos: "0 < length ys" using n by linarith
  have nz: "real (length ys) \<noteq> 0" using pos by simp
  have "ss_xy ys / ss_xx ys = (real (length ys) * ss_xy ys) / (real (length ys) * ss_xx ys)"
    using nz by simp
  also have "\<dots> = ols_slope ys"
    unfolding ss_xy_normal [OF pos] ss_xx_normal [OF pos] by (simp add: ols_slope_def Let_def)
  finally show ?thesis .
qed

lemma length_drop_nan: "length (drop_nan xs) \<le> length xs"
  by (induction xs rule: drop_nan.induct) auto

lemma length_recent: "length (drop_nan (last_n 7 temps)) \<le> 7"
proof -
  have "length (last_n 7 temps) \<le> 7" by (simp add: last_n_def)
  then show ?thesis using length_drop_nan [of "last_n 7 temps"] by linarith
qed

lemma last_n_short: "length xs \<le> k \<Longrightarrow> last_n k xs = xs"
  by (simp add: last_n_def)

text \<open>
  A series with five valid points, three of them older than the last seven entries:
  the code finds two valid points in its window and returns 0, where the slope over
  the last non-NaN values \<open>1, 2, 3, 5, 6\<close> is 1.3.
\<close>

theorem trend_slope_7day_filter_first_counterexample:
  "trend_slope_7day
     [Some 1, Some 2, Some 3, None, None, None, None, None, Some 5, Some 6] = 0 \<and>
   spec_trend_slope
     [Some 1, Some 2, Some 3, None, None, None, None, None, Some 5, Some 6] = 13 / 10"
  by (simp add: trend_slope_7day_def spec_trend_slope_def last_n_def ols_slope_def Let_def
      lessThan_nat_numeral lessThan_Suc)

text \<open>
  Claim C6, amended. \<open>trend_slope_7day\<close> takes the last seven entries of the series
  first and drops the NaN values of that window after: it returns the
  ordinary-least-squares slope (the solution of the normal equations against the indices
  0, 1, \<dots>) over the non-NaN values among the last seven entries, at most seven values,
  and 0 when fewer than three of those entries are valid. The guard on a zero
  denominator never fires for three or more values. For a series of at most seven
  entries this is the slope over all its non-NaN values.
\<close>

theorem trend_slope_7day_window:
  "trend_slope_7day temps =
     (if length (drop_nan (drop (length temps - 7) temps)) < 3 then 0
      else ols_slope (drop_nan (drop (length temps - 7) temps))) \<and>
   length (drop_nan (drop (length temps - 7) temps)) \<le> 7 \<and>
   (3 \<le> length (drop_nan (drop (length temps - 7) temps)) \<longrightarrow>
      ss_xx (drop_nan (drop (length temps - 7) temps)) \<noteq> 0 \<and>
      trend_slope_7day temps = ols_slope (drop_nan (drop (length temps - 7) temps))) \<and>
   (length (drop_nan (drop (length temps - 7) temps)) < 3 \<longrightarrow> trend_slope_7day temps = 0) \<and>
   (length temps \<le> 7 \<longrightarrow>
      trend_slope_7day temps =
        (if length (drop_nan temps) < 3 then 0 else ols_slope (drop_nan temps)) \<and>
      trend_slope_7day temps = spec_trend_slope temps)"
proof -
  define recent where "recent = drop_nan (drop (length temps - 7) temps)"
  have w: "drop_nan (last_n 7 temps) = recent" by (simp add: recent_def last_n_def)
  have a: "3 \<le> length recent \<Longrightarrow> ss_xx recent \<noteq> 0"
    using ss_xx_positive [of recent] by simp
  have b: "3 \<le> length recent \<Longrightarrow> ss_xy recent / ss_xx recent = ols_slope recent"
    using slope_is_ols [of recent] by simp
  have t: "trend_slope_7day temps =
      (if length recent < 3 then 0 else if ss_xx recent = 0 then 0
       else ss_xy recent / ss_xx recent)"
    by (simp add: trend_slope_7day_def Let_def w)
  have len: "length recent \<le> 7" using length_recent [of temps] unfolding w .
  have t': "trend_slope_7day temps = (if length recent < 3 then 0 else ols_slope recent)"
    using a b t by auto
  have short: "trend_slope_7day temps =
        (if length (drop_nan temps) < 3 then 0 else ols_slope (drop_nan temps)) \<and>
      trend_slope_7day temps = spec_trend_slope temps" if s: "length temps \<le> 7"
  proof -
    have r: "recent = drop_nan temps" using s by (simp add: recent_def)
    have "length (drop_nan temps) \<le> 7" using length_drop_nan [of temps] s by linarith
    then have "last_n 7 (drop_nan temps) = drop_nan temps" by (rule last_n_short)
    then have "spec_trend_slope temps =
        (if length (drop_nan temps) < 3 then 0 else ols_slope (drop_nan temps))"
      by (simp add: spec_trend_slope_def Let_def)
    then show ?thesis using t' unfolding r by simp
  qed
  show ?thesis
    unfolding recent_def [symmetric] using a t' len short by auto
qed

theorem trend_slope_7day_window_witness:
  "3 \<le> length (drop_nan (drop
       (length [Some 100, Some 0, None, Some 9, Some 10, None, Some 12, Some 14, None] - 7)
       [Some 100, Some 0, None, Some 9, Some 10, None, Some 12, Some 14, None])) \<and>
   trend_slope_7day [Some 100, Some 0, None, Some 9, Some 10, None, Some 12, Some 14, None]
     = 17 / 10 \<and>
   length (drop_nan (drop
       (length [Some 1, Some 2, Some 3, None, None, None, None, None, Some 5, Some 6] - 7)
       [Some 1, Some 2, Some 3, None, None, None, None, None, Some 5, Some 6])) < 3 \<and>
   trend_slope_7day [Some 1, Some 2, Some 3, None, None, None, None, None, Some 5, Some 6] = 0 \<and>
   length [Some 4, None, Some 6, Some 11] \<le> 7 \<and>
   trend_slope_7day [Some 4, None, Some 6, Some 11] = 7 / 2 \<and>
   spec_trend_slope [Some 4, None, Some 6, Some 11] = 7 / 2"
proof -
  have a: "trend_slope_7day
      [Some 100, Some 0, None, Some 9, Some 10, None, Some 12, Some 14, None] = 17 / 10"
    using trend_slope_7day_window
      [of "[Some 100, Some 0, None, Some 9, Some 10, None, Some 12, Some 14, None]"]
    by (simp add: ols_slope_def Let_def lessThan_nat_numeral lessThan_Suc)
  have b: "trend_slope_7day
      [Some 1, Some 2, Some 3, None, None, None, None, None, Some 5, Some 6] = 0"
    using trend_slope_7day_window
      [of "[Some 1, Some 2, Some 3, None, None, None, None, None, Some 5, Some 6]"]
    by simp
  have c: "trend_slope_7day [Some 4, None, Some 6, Some 11] = 7 / 2 \<and>
      spec_trend_slope [Some 4, None, Some 6, Some 11] = 7 / 2"
    using trend_slope_7day_window [of "[Some 4, None, Some 6, Some 11]"]
    by (simp add: ols_slope_def Let_def lessThan_nat_numeral lessThan_Suc)
  show ?thesis using a b c by simp
qed

subsection \<open>Mann-Kendall test on increasing series\<close>

lemma mk_fold_increasing:
  "(\<And>p. p \<in> set ps \<Longrightarrow> x ! fst p < x ! snd p) \<Longrightarrow>
   foldl (mk_step x) a ps = a + int (length ps)"
proof (induction ps arbitrary: a)
  case Nil
  then show ?case by simp
next
  case (Cons p ps)
  have "x ! fst p < x ! snd p" using Cons.prems by simp
  then have "mk_step x a p = a + 1" by (simp add: mk_step_def)
  moreover have "foldl (mk_step x) (a + 1) ps = a + 1 + int (length ps)"
    using Cons.IH [of "a + 1"] Cons.prems by simp
  ultimately show ?case by simp
qed

lemma mk_S_increasing:
  assumes "sorted_wrt (<) x"
  shows "mk_S x = int (length x * (length x - 1) div 2)"
proof -
  have "x ! fst p < x ! snd p" if "p \<in> set (combinations2 (length x))" for p
  proof -
    have "fst p < snd p" "snd p < length x"
      using that by (auto simp: set_combinations2)
    then show ?thesis using assms by (simp add: sorted_wrt_nth_less)
  qed
  then have "foldl (mk_step x) 0 (combinations2 (length x)) =
      0 + int (length (combinations2 (length x)))"
    by (rule mk_fold_increasing)
  then show ?thesis by (simp add: mk_S_def length_combinations2)
qed

lemma count_list_distinct: "distinct xs \<Longrightarrow> count_list xs v \<le> 1"
  by (induction xs) (auto simp: count_list_0_iff)

lemma tie_fold_no_ties:
  "(\<And>t. t \<in> set ts \<Longrightarrow> t \<le> 1) \<Longrightarrow>
   foldl (\<lambda>acc t. if 1 < t then acc + real (t * (t - 1) * (2 * t + 5)) else acc) a ts = a"
proof (induction ts arbitrary: a)
  case Nil
  then show ?case by simp
next
  case (Cons t ts)
  have "\<not> 1 < t" using Cons.prems [of t] by simp
  then show ?case using Cons.IH [of a] Cons.prems by simp
qed

lemma tie_correction_increasing:
  assumes "sorted_wrt (<) x"
  shows "tie_correction x = 0"
proof -
  have "distinct x" using assms by (simp add: strict_sorted_iff)
  then have "t \<le> 1" if "t \<in> set (unique_counts x)" for t
    using that count_list_distinct [of x] by (auto simp: unique_counts_def)
  then show ?thesis unfolding tie_correction_def by (rule tie_fold_no_ties)
qed

lemma mk_var_increasing:
  assumes "sorted_wrt (<) x"
  shows "mk_var x = real (length x * (length x - 1) * (2 * length x + 5)) / 18"
  by (simp add: mk_var_def Let_def tie_correction_increasing [OF assms])

lemma pairs_ge_3: "3 \<le> n \<Longrightarrow> 3 \<le> n * (n - 1) div 2" for n :: nat
proof -
  assume n: "3 \<le> n"
  then have "3 * 2 \<le> n * (n - 1)" by (intro mult_le_mono) simp_all
  then show ?thesis by simp
qed

lemma mk_z_increasing:
  assumes "sorted_wrt (<) x" "3 \<le> length x"
  shows "mk_z x = (real (length x * (length x - 1) div 2) - 1) / sqrt (mk_var x)"
proof -
  have s: "mk_S x = int (length x * (length x - 1) div 2)"
    by (rule mk_S_increasing [OF assms(1)])
  have pos: "0 < mk_S x" unfolding s using pairs_ge_3 [OF assms(2)] by simp
  have "0 < length x" "0 < length x - 1" using assms(2) by linarith+
  then have "0 < length x * (length x - 1) * (2 * length x + 5)" by simp
  then have v: "mk_var x \<noteq> 0" unfolding mk_var_increasing [OF assms(1)] by simp
  show ?thesis using pos v by (simp add: mk_z_def Let_def s)
qed

lemma real_pairs: "real (n * (n - 1) div 2) = real n * (real n - 1) / 2"
proof (cases n)
  case 0
  then show ?thesis by simp
next
  case (Suc k)
  have "even (n * (n - 1))" unfolding Suc by simp
  then have "real (n * (n - 1) div 2) = real (n * (n - 1)) / 2"
    by (simp add: real_of_nat_div)
  then show ?thesis unfolding Suc by (simp add: algebra_simps)
qed

lemma quartic_bound:
  fixes r :: real
  assumes "5 \<le> r"
  shows "4802 * (r * (r - 1) * (2 * r + 5)) \<le> 5625 * (r * (r - 1) - 2) ^ 2"
proof -
  define t where "t = r - 5"
  have t: "0 \<le> t" using assms by (simp add: t_def)
  have r: "r = t + 5" by (simp add: t_def)
  have "5625 * (r * (r - 1) - 2) ^ 2 - 4802 * (r * (r - 1) * (2 * r + 5))
        = 5625 * t ^ 4 + 91646 * t ^ 3 + 499659 * t ^ 2 + 982150 * t + 381900"
    unfolding r by (simp add: algebra_simps power2_eq_square power3_eq_cube power4_eq_xxxx)
  moreover have "0 \<le> 5625 * t ^ 4 + 91646 * t ^ 3 + 499659 * t ^ 2 + 982150 * t + 381900"
    using t by (intro add_nonneg_nonneg mult_nonneg_nonneg zero_le_power) simp_all
  ultimately show ?thesis by linarith
qed

lemma mk_z_lower:
  assumes inc: "sorted_wrt (<) x" and n: "5 \<le> length x"
  shows "196 / 100 \<le> mk_z x"
proof -
  define r where "r = real (length x)"
  have r5: "5 \<le> r" using n by (simp add: r_def)
  define m where "m = r * (r - 1) / 2"
  have m: "real (length x * (length x - 1) div 2) = m"
    unfolding real_pairs m_def r_def ..
  have v: "mk_var x = r * (r - 1) * (2 * r + 5) / 18"
    unfolding mk_var_increasing [OF inc] r_def using n
    by simp
  have n3: "3 \<le> length x" using n by linarith
  have z: "mk_z x = (m - 1) / sqrt (mk_var x)"
    unfolding mk_z_increasing [OF inc n3] m ..
  have "20 \<le> r * (r - 1)" using r5 by (intro order_trans [OF _ mult_mono [of 5 r 4 "r - 1"]]) simp_all
  then have m1: "0 \<le> (m - 1) * (100 / 196)" by (simp add: m_def)
  have vpos: "0 < mk_var x" unfolding v using r5 by simp
  have "4802 * (r * (r - 1) * (2 * r + 5)) \<le> 5625 * (r * (r - 1) - 2) ^ 2"
    by (rule quartic_bound [OF r5])
  then have "4802 * (r * (r - 1) * (2 * r + 5)) / 86436 \<le> 5625 * (r * (r - 1) - 2) ^ 2 / 86436"
    by (rule divide_right_mono) simp
  moreover have "mk_var x = 4802 * (r * (r - 1) * (2 * r + 5)) / 86436"
    unfolding v by simp
  moreover have "((m - 1) * (100 / 196)) ^ 2 = 5625 * (r * (r - 1) - 2) ^ 2 / 86436"
  proof -
    have "(m - 1) * (100 / 196) = (r * (r - 1) - 2) * (25 / 98)"
      unfolding m_def by simp
    then have "((m - 1) * (100 / 196)) ^ 2 = (r * (r - 1) - 2) ^ 2 * (25 / 98) ^ 2"
      by (simp only: power_mult_distrib)
    then show ?thesis by (simp add: power2_eq_square)
  qed
  ultimately have "mk_var x \<le> ((m - 1) * (100 / 196)) ^ 2" by simp
  then have "sqrt (mk_var x) \<le> (m - 1) * (100 / 196)"
    using m1 by (intro real_le_lsqrt) simp_all
  then have "(196 / 100) * sqrt (mk_var x) \<le> m - 1" by simp
  then show ?thesis
    unfolding z using vpos by (simp add: pos_le_divide_eq)
qed

lemma mk_p_small:
  assumes inc: "sorted_wrt (<) x" and n: "5 \<le> length x"
    and mono: "\<And>a b. a \<le> b \<Longrightarrow> norm_cdf a \<le> norm_cdf b"
    and q: "975 / 1000 \<le> norm_cdf (196 / 100)"
  shows "mk_p norm_cdf x \<le> 5 / 100"
proof -
  have "196 / 100 \<le> \<bar>mk_z x\<bar>" using mk_z_lower [OF inc n] by linarith
  then have "norm_cdf (196 / 100) \<le> norm_cdf \<bar>mk_z x\<bar>" by (rule mono)
  then show ?thesis using q by (simp add: mk_p_def)
qed

lemma step_cdf_mono: "mono (\<lambda>z :: real. if 196 / 100 \<le> z then 975 / 1000 else (1 / 2 :: real))"
  by (rule monoI) auto


text \<open>
  Claim C9. For a strictly increasing series of length \<open>n \<ge> 3\<close> the Mann-Kendall
  statistic is \<open>S = n (n - 1) / 2\<close>, the tie correction is zero, the variance is
  \<open>n (n - 1) (2 n + 5) / 18\<close>, the z-score is the continuity-corrected
  \<open>(S - 1) / sqrt var\<close>, and the reported trend is \<open>increasing\<close> exactly when the
  two-tailed p-value \<open>2 (1 - cdf |z|)\<close> is at most 0.05. Five points are enough for
  that: then \<open>z \<ge> 1.96\<close>, so the trend is \<open>increasing\<close> for every monotone
  \<open>cdf\<close> with \<open>cdf 1.96 \<ge> 0.975\<close>, as the standard normal one is.
\<close>

theorem mann_kendall_increasing:
  "sorted_wrt (<) x \<and> 3 \<le> length x \<longrightarrow>
     S (mann_kendall_test norm_cdf x) = int (length x * (length x - 1) div 2) \<and>
     mk_S x = int (length x * (length x - 1) div 2) \<and>
     tie_correction x = 0 \<and>
     mk_var x = real (length x * (length x - 1) * (2 * length x + 5)) / 18 \<and>
     mk_z x = (real (length x * (length x - 1) div 2) - 1) / sqrt (mk_var x) \<and>
     mk_p norm_cdf x = 2 * (1 - norm_cdf \<bar>mk_z x\<bar>) \<and>
     (trend (mann_kendall_test norm_cdf x) = increasing) = (mk_p norm_cdf x \<le> 5 / 100) \<and>
     (trend (mann_kendall_test norm_cdf x) = no_trend) = (5 / 100 < mk_p norm_cdf x) \<and>
     significant (mann_kendall_test norm_cdf x) = (mk_p norm_cdf x \<le> 5 / 100) \<and>
     (5 \<le> length x \<and> mono norm_cdf \<and> 975 / 1000 \<le> norm_cdf (196 / 100) \<longrightarrow>
        trend (mann_kendall_test norm_cdf x) = increasing)"
proof
  assume a: "sorted_wrt (<) x \<and> 3 \<le> length x"
  then have inc: "sorted_wrt (<) x" and n: "3 \<le> length x" by simp_all
  have s: "mk_S x = int (length x * (length x - 1) div 2)" by (rule mk_S_increasing [OF inc])
  have pos: "0 < mk_S x" unfolding s using pairs_ge_3 [OF n] by simp
  have r: "mann_kendall_test norm_cdf x =
      \<lparr> S = mk_S x, var_S = py_round 4 (mk_var x), z_score = py_round 4 (mk_z x),
        p_value = py_round 6 (mk_p norm_cdf x),
        trend = (if mk_p norm_cdf x \<le> 5 / 100 then increasing else no_trend),
        significant = (mk_p norm_cdf x \<le> 5 / 100) \<rparr>"
    using n pos by (simp add: mann_kendall_test_def Let_def)
  have large: "mk_p norm_cdf x \<le> 5 / 100"
    if "5 \<le> length x \<and> mono norm_cdf \<and> 975 / 1000 \<le> norm_cdf (196 / 100)"
  proof (rule mk_p_small [OF inc])
    show "5 \<le> length x" using that by simp
    show "norm_cdf a \<le> norm_cdf b" if "a \<le> b" for a b
      using \<open>5 \<le> length x \<and> mono norm_cdf \<and> 975 / 1000 \<le> norm_cdf (196 / 100)\<close> that
      by (simp add: monoD)
    show "975 / 1000 \<le> norm_cdf (196 / 100)" using that by simp
  qed
  show "S (mann_kendall_test norm_cdf x) = int (length x * (length x - 1) div 2) \<and>
     mk_S x = int (length x * (length x - 1) div 2) \<and>
     tie_correction x = 0 \<and>
     mk_var x = real (length x * (length x - 1) * (2 * length x + 5)) / 18 \<and>
     mk_z x = (real (length x * (length x - 1) div 2) - 1) / sqrt (mk_var x) \<and>
     mk_p norm_cdf x = 2 * (1 - norm_cdf \<bar>mk_z x\<bar>) \<and>
     (trend (mann_kendall_test norm_cdf x) = increasing) = (mk_p norm_cdf x \<le> 5 / 100) \<and>
     (trend (mann_kendall_test norm_cdf x) = no_trend) = (5 / 100 < mk_p norm_cdf x) \<and>
     significant (mann_kendall_test norm_cdf x) = (mk_p norm_cdf x \<le> 5 / 100) \<and>
     (5 \<le> length x \<and> mono norm_cdf \<and> 975 / 1000 \<le> norm_cdf (196 / 100) \<longrightarrow>
        trend (mann_kendall_test norm_cdf x) = increasing)"
    unfolding r
    using s tie_correction_increasing [OF inc] mk_var_increasing [OF inc]
      mk_z_increasing [OF inc n] large
    by (simp add: mk_p_def)
qed


theorem mann_kendall_increasing_witness:
  "sorted_wrt (<) [1, 2, 4, 7, 11 :: real] \<and> 3 \<le> length [1, 2, 4, 7, 11 :: real] \<and>
   5 \<le> length [1, 2, 4, 7, 11 :: real] \<and>
   mono (\<lambda>z :: real. if 196 / 100 \<le> z then 975 / 1000 else (1 / 2 :: real)) \<and>
   S (mann_kendall_test (\<lambda>z. if 196 / 100 \<le> z then 975 / 1000 else 1 / 2) [1, 2, 4, 7, 11]) = 10 \<and>
   mk_var [1, 2, 4, 7, 11] = 50 / 3 \<and>
   trend (mann_kendall_test (\<lambda>z. if 196 / 100 \<le> z then 975 / 1000 else 1 / 2) [1, 2, 4, 7, 11])
     = increasing"
  using mann_kendall_increasing [of "[1, 2, 4, 7, 11]"
      "\<lambda>z. if 196 / 100 \<le> z then 975 / 1000 else 1 / 2"] step_cdf_mono
  by simp

end
